theory Spec2Isabelle
  imports Complex_Main
begin

section \<open>The AI image-generation client of the storyboard tool\<close>

text \<open>
  A shallow embedding of the service layer (\<^verbatim>\<open>validateAPIConfig\<close>,
  \<^verbatim>\<open>generateAIImage\<close>, \<^verbatim>\<open>convertToBase64\<close>) and of
  \<^verbatim>\<open>calculateImageSize\<close> from \<^verbatim>\<open>src/utils/imageUtils.ts\<close>.

  Strings are \<open>char list\<close>; a character stands for one code unit of the Latin-1 range.
  Fixed message texts of the source that lie outside that range are represented by the
  constructor that carries their variable parts.
\<close>

subsection \<open>String operations of the host language\<close>

definition startsWith :: "string \<Rightarrow> string \<Rightarrow> bool" where
  "startsWith s p = (take (length p) s = p)"


fun includes_str :: "string \<Rightarrow> string \<Rightarrow> bool" where
  "includes_str [] p = (p = [])"
| "includes_str (c # cs) p = (startsWith (c # cs) p \<or> includes_str cs p)"

definition is_ws :: "char \<Rightarrow> bool" where
  \<comment> \<open>white space and line terminators removed by \<^verbatim>\<open>trim\<close>\<close>
  "is_ws c = ((of_char c :: nat) \<in> {9, 10, 11, 12, 13, 32, 160})"

definition trim :: "string \<Rightarrow> string" where
  "trim s = rev (dropWhile is_ws (rev (dropWhile is_ws s)))"

definition lower_char :: "char \<Rightarrow> char" where
  "lower_char c =
     (let n = (of_char c :: nat)
      in if (65 \<le> n \<and> n \<le> 90) \<or> (192 \<le> n \<and> n \<le> 222 \<and> n \<noteq> 215)
         then char_of (n + 32) else c)"

definition toLowerCase :: "string \<Rightarrow> string" where
  "toLowerCase s = map lower_char s"

fun split_on :: "char \<Rightarrow> string \<Rightarrow> string list" where
  "split_on d [] = [[]]"
| "split_on d (c # cs) =
     (if c = d then [] # split_on d cs
      else (case split_on d cs of [] \<Rightarrow> [[c]] | p # ps \<Rightarrow> (c # p) # ps))"

definition or_default :: "string option \<Rightarrow> string \<Rightarrow> string" where
  \<comment> \<open>\<^verbatim>\<open>s || d\<close> for a string that may be undefined: the empty string is falsy\<close>
  "or_default s d = (case s of None \<Rightarrow> d | Some x \<Rightarrow> if x = [] then d else x)"

definition nth_opt :: "'a list \<Rightarrow> nat \<Rightarrow> 'a option" where
  "nth_opt xs i = (if i < length xs then Some (xs ! i) else None)"

subsection \<open>Provider classification\<close>

datatype provider = GEMINI | ASYNC_TASK | GENERIC

definition isGeminiAPI :: "string \<Rightarrow> bool" where
  "isGeminiAPI endpoint =
     (includes_str endpoint ''/v1beta/models/'' \<and> includes_str endpoint '':generateContent'')"

definition isNanoBananaAPI :: "string \<Rightarrow> bool" where
  "isNanoBananaAPI endpoint = includes_str endpoint ''/v1/draw/''"

definition classify :: "string \<Rightarrow> provider" where
  \<comment> \<open>the branch order of both callers: \<^verbatim>\<open>if (isGeminiAPI) .. else if (isNanoBananaAPI) .. else\<close>\<close>
  "classify endpoint =
     (if isGeminiAPI endpoint then GEMINI
      else if isNanoBananaAPI endpoint then ASYNC_TASK
      else GENERIC)"

definition provider_in_generate :: "string \<Rightarrow> provider" where
  \<comment> \<open>\<^verbatim>\<open>generateAIImage\<close>: the flags are computed on \<^verbatim>\<open>config.apiEndpoint.trim()\<close>\<close>
  "provider_in_generate apiEndpoint = classify (trim apiEndpoint)"

definition provider_in_validate :: "string \<Rightarrow> provider" where
  \<comment> \<open>\<^verbatim>\<open>validateAPIConfig\<close>: the flags are computed on \<^verbatim>\<open>config.apiEndpoint.toLowerCase()\<close>\<close>
  "provider_in_validate apiEndpoint = classify (toLowerCase apiEndpoint)"

subsection \<open>Numbers of the host language\<close>

text \<open>
  A number is NaN, an infinity or a finite value. Finite values are exact rationals: the
  rounding of binary floating point is not modelled, and the two zeros are one value.
\<close>

datatype jsnum = NaN | Fin rat | PosInf | NegInf

fun js_div :: "jsnum \<Rightarrow> jsnum \<Rightarrow> jsnum" where
  "js_div (Fin a) (Fin b) =
     (if b \<noteq> 0 then Fin (a / b)
      else if a = 0 then NaN else if 0 < a then PosInf else NegInf)"
| "js_div (Fin a) PosInf = Fin 0"
| "js_div (Fin a) NegInf = Fin 0"
| "js_div PosInf (Fin b) = (if 0 \<le> b then PosInf else NegInf)"
| "js_div NegInf (Fin b) = (if 0 \<le> b then NegInf else PosInf)"
| "js_div _ _ = NaN"

fun js_mul :: "jsnum \<Rightarrow> jsnum \<Rightarrow> jsnum" where
  "js_mul (Fin a) (Fin b) = Fin (a * b)"
| "js_mul (Fin a) PosInf = (if a = 0 then NaN else if 0 < a then PosInf else NegInf)"
| "js_mul (Fin a) NegInf = (if a = 0 then NaN else if 0 < a then NegInf else PosInf)"
| "js_mul PosInf (Fin b) = (if b = 0 then NaN else if 0 < b then PosInf else NegInf)"
| "js_mul NegInf (Fin b) = (if b = 0 then NaN else if 0 < b then NegInf else PosInf)"
| "js_mul PosInf PosInf = PosInf"
| "js_mul NegInf NegInf = PosInf"
| "js_mul PosInf NegInf = NegInf"
| "js_mul NegInf PosInf = NegInf"
| "js_mul _ _ = NaN"

fun js_ge :: "jsnum \<Rightarrow> jsnum \<Rightarrow> bool" where
  "js_ge NaN _ = False"
| "js_ge _ NaN = False"
| "js_ge (Fin a) (Fin b) = (b \<le> a)"
| "js_ge PosInf _ = True"
| "js_ge _ NegInf = True"
| "js_ge _ _ = False"

fun Math_round :: "jsnum \<Rightarrow> jsnum" where
  \<comment> \<open>to the nearest integer, a tie towards plus infinity\<close>
  "Math_round (Fin x) = Fin (of_int \<lfloor>x + 1 / 2\<rfloor>)"
| "Math_round n = n"

definition is_digit :: "char \<Rightarrow> bool" where
  "is_digit c = (48 \<le> (of_char c :: nat) \<and> (of_char c :: nat) \<le> 57)"

definition digits_value :: "string \<Rightarrow> nat" where
  "digits_value ds = foldl (\<lambda>a c. 10 * a + ((of_char c :: nat) - 48)) 0 ds"

definition read_sign :: "string \<Rightarrow> bool \<times> string" where
  "read_sign s =
     (case s of
        c # cs \<Rightarrow> if c = CHR ''-'' then (True, cs) else if c = CHR ''+'' then (False, cs)
                  else (False, s)
      | [] \<Rightarrow> (False, s))"

definition read_exponent :: "string \<Rightarrow> int" where
  \<comment> \<open>the optional exponent part after the mantissa; 0 when there is none\<close>
  "read_exponent s =
     (case s of
        c # cs \<Rightarrow>
          if c = CHR ''e'' \<or> c = CHR ''E'' then
            (let (neg, r) = read_sign cs; ds = takeWhile is_digit r
             in if ds = [] then 0
                else if neg then - int (digits_value ds) else int (digits_value ds))
          else 0
      | [] \<Rightarrow> 0)"

definition scale10 :: "rat \<Rightarrow> int \<Rightarrow> rat" where
  "scale10 m e = (if 0 \<le> e then m * 10 ^ nat e else m / 10 ^ nat (- e))"

definition parseFloat :: "string \<Rightarrow> jsnum" where
  \<comment> \<open>the longest prefix, after leading white space, that is a decimal literal\<close>
  "parseFloat s =
     (let (neg, r) = read_sign (dropWhile is_ws s)
      in if startsWith r ''Infinity'' then (if neg then NegInf else PosInf)
         else
           (let ip = takeWhile is_digit r;
                r1 = dropWhile is_digit r;
                fp = (if startsWith r1 ''.'' then takeWhile is_digit (tl r1) else []);
                r2 = (if startsWith r1 ''.'' then dropWhile is_digit (tl r1) else r1)
            in if ip = [] \<and> fp = [] then NaN
               else
                 (let m = of_nat (digits_value ip)
                          + of_nat (digits_value fp) / 10 ^ length fp;
                      v = scale10 m (read_exponent r2)
                  in Fin (if neg then - v else v))))"

subsection \<open>Image size from the aspect ratio\<close>

definition ratio_operands :: "string \<Rightarrow> jsnum \<times> jsnum" where
  \<comment> \<open>\<^verbatim>\<open>const [wStr, hStr] = aspectRatio.split(':')\<close> and the two \<^verbatim>\<open>parseFloat\<close> calls\<close>
  "ratio_operands aspectRatio =
     (let parts = split_on CHR '':'' aspectRatio
      in (parseFloat (or_default (nth_opt parts 0) ''16''),
          parseFloat (or_default (nth_opt parts 1) ''9'')))"

definition round_to_8 :: "jsnum \<Rightarrow> jsnum" where
  \<comment> \<open>\<^verbatim>\<open>Math.round(x / 8) * 8\<close>\<close>
  "round_to_8 x = js_mul (Math_round (js_div x (Fin 8))) (Fin 8)"

definition calculateImageSize :: "string \<Rightarrow> jsnum \<Rightarrow> jsnum \<times> jsnum" where
  \<comment> \<open>the result is (width, height)\<close>
  "calculateImageSize aspectRatio baseSize =
     (let (w, h) = ratio_operands aspectRatio;
          ratio = js_div w h;
          (width, height) =
            (if js_ge w h then (baseSize, Math_round (js_div baseSize ratio))
             else (Math_round (js_mul baseSize ratio), baseSize))
      in (round_to_8 width, round_to_8 height))"

subsection \<open>Data URLs\<close>

definition is_line_terminator :: "char \<Rightarrow> bool" where
  "is_line_terminator c = (c = CHR 0x0A \<or> c = CHR 0x0D)"

definition match_data_url :: "string \<Rightarrow> string \<Rightarrow> (string \<times> string) option" where
  \<comment> \<open>the pattern \<^verbatim>\<open>^<lead>([^;]+);base64,(.+)$\<close>: both groups, when the string matches\<close>
  "match_data_url lead s =
     (if startsWith s lead then
        (let rest = drop (length lead) s;
             g1 = takeWhile (\<lambda>c. c \<noteq> CHR '';'') rest;
             r1 = dropWhile (\<lambda>c. c \<noteq> CHR '';'') rest;
             g2 = drop 8 r1
         in if g1 \<noteq> [] \<and> startsWith r1 '';base64,'' \<and> g2 \<noteq> []
               \<and> list_all (\<lambda>c. \<not> is_line_terminator c) g2
            then Some (g1, g2) else None)
      else None)"

definition extractBase64 :: "string \<Rightarrow> string \<times> string" where
  \<comment> \<open>(mimeType, data)\<close>
  "extractBase64 dataUrl =
     (if startsWith dataUrl ''data:'' then
        (case match_data_url ''data:'' dataUrl of
           Some (m, d) \<Rightarrow> (m, d)
         | None \<Rightarrow> (''image/png'', dataUrl))
      else (''image/png'', dataUrl))"

definition extractPureBase64 :: "string \<Rightarrow> string" where
  "extractPureBase64 dataUrl =
     (if startsWith dataUrl ''data:'' then
        (case match_data_url ''data:'' dataUrl of
           Some (m, d) \<Rightarrow> d
         | None \<Rightarrow> dataUrl)
      else dataUrl)"

subsection \<open>JSON values and the network\<close>

datatype json =
    JNull | JBool bool | JNum rat | JStr string | JArr "json list"
  | JObj "(string \<times> json) list"

record response =
  status :: nat
  content_type :: string
  body_text :: string
  body_json :: "string + json"
  body_reader :: "string list option"
  blob_size :: nat
  blob_data_url :: "string + string"

text \<open>
  \<open>content_type\<close> is \<^verbatim>\<open>headers.get('content-type') || ''\<close>; \<open>body_json\<close> is the outcome of
  \<^verbatim>\<open>response.json()\<close> (\<open>Inl\<close> the message of the rejection); \<open>body_reader\<close> is the sequence of
  decoded chunks the body reader delivers before it reports \<^verbatim>\<open>done\<close>, \<open>None\<close> when the
  response has no body; \<open>blob_size\<close> is the size of \<^verbatim>\<open>response.blob()\<close> and
  \<open>blob_data_url\<close> the outcome of reading that blob as a data URL (by \<^verbatim>\<open>imageToBase64\<close>
  in \<^verbatim>\<open>convertToBase64\<close>, by the file reader in \<^verbatim>\<open>downloadImageAsBase64\<close>).
\<close>

definition ok :: "response \<Rightarrow> bool" where
  "ok r = (200 \<le> status r \<and> status r \<le> 299)"

datatype fetch_result = Rejected string | Responded response

datatype gemini_part =
    TextPart string "(string \<times> jsnum \<times> jsnum) option" "string option"
  | InlineData string string

text \<open>
  \<open>TextPart prompt ratio negative\<close> is the text \<^verbatim>\<open>fullPrompt\<close>: the prompt, then the line
  with the aspect ratio and the pixel size when \<open>ratio\<close> is given, then the line with the
  negative prompt when \<open>negative\<close> is given. \<open>InlineData mime_type data\<close> is an
  \<^verbatim>\<open>inline_data\<close> part.
\<close>

record nano_body =
  nb_model :: string
  nb_prompt :: string
  nb_imageSize :: "jsnum \<times> jsnum"
  nb_aspectRatio :: string
  nb_webhook :: string
  nb_shutProgress :: bool
  nb_urls :: "string list"
  nb_negativePrompt :: "string option"

datatype field = FStr string | FNum nat | FSize jsnum jsnum

datatype request_body =
    GeminiBody "gemini_part list"
  | NanoBody nano_body
  | GenericBody "(string \<times> field) list"

record http_request =
  rq_endpoint :: string
  rq_key_param :: "string option"
  rq_headers :: "(string \<times> string) list"
  rq_body :: request_body

datatype request =
    GenerateCall http_request
  | ResultCall string json
  | ImageFetch string
  | ValidateCall string provider

text \<open>
  \<open>GenerateCall\<close> is the POST of the built body to the configured endpoint,
  \<open>ResultCall endpoint id\<close> the POST of \<^verbatim>\<open>{ id: taskId }\<close> to the result address that
  belongs to the configured endpoint,
  \<open>ImageFetch url\<close> a GET of an image, \<open>ValidateCall endpoint p\<close> the test request of the
  validation, with the body and headers of provider \<open>p\<close>.
\<close>

record world =
  pending :: "fetch_result list"
  sent :: "request list"
  reported :: "jsnum list"
  slept :: "nat list"

text \<open>
  The world holds the answers the network will give, in the order of the calls
  (\<open>pending\<close>; when it is used up, a call is rejected), the calls made so far (\<open>sent\<close>),
  the arguments \<^verbatim>\<open>onProgress\<close> has received (\<open>reported\<close>) and the delays waited for, in
  milliseconds (\<open>slept\<close>).
\<close>

definition fetch :: "request \<Rightarrow> world \<Rightarrow> fetch_result \<times> world" where
  "fetch rq w =
     (case pending w of
        [] \<Rightarrow> (Rejected ''Failed to fetch'', w\<lparr>sent := sent w @ [rq]\<rparr>)
      | r # rs \<Rightarrow> (r, w\<lparr>pending := rs, sent := sent w @ [rq]\<rparr>))"

definition report :: "bool \<Rightarrow> jsnum \<Rightarrow> world \<Rightarrow> world" where
  \<comment> \<open>\<^verbatim>\<open>if (params.onProgress) params.onProgress(p)\<close>\<close>
  "report cb p w = (if cb then w\<lparr>reported := reported w @ [p]\<rparr> else w)"

definition sleep :: "nat \<Rightarrow> world \<Rightarrow> world" where
  "sleep ms w = w\<lparr>slept := slept w @ [ms]\<rparr>"

subsection \<open>Errors\<close>

datatype load_failure =
    FetchRejected string | NotOk nat | EmptyBlob | ReadFailed string | TooShort

datatype http_message = StatusLine nat | FromErrorJson json | FromText string

datatype hint = NoHint | Moderation | RateLimit | Auth

datatype error =
    ConfigMissing
  | ConfigIncomplete
  | ImageEmpty
  | Base64TooShort
  | Base64Invalid
  | BlobConvertFailed load_failure
  | ImageLoadFailed load_failure
  | StoryboardInvalid
  | EndpointInvalid string
  | NanoStoryboardIncomplete
  | GenericStoryboardIncomplete
  | AuthFailed http_message
  | ApiCallFailed http_message
  | NoStreamReader
  | NoSSEData
  | NotJson string string
  | TaskFailed hint "json option"
  | TaskTimeout json json
  | TaskPending json "json option"
  | NoImageInResponse json
  | ImageDownloadFailed load_failure string
  | RetriesExhausted
  | EndpointEmpty
  | EndpointIsDocumentation
  | HtmlReturned string
  | ValidationAuthFailed
  | ApiReturnedError nat string
  | FetchError string
  | JsonError string
  | TypeError

text \<open>
  One constructor for each \<^verbatim>\<open>throw\<close> of the source, in the order of the text, with the
  variable parts of the message: \<open>TaskFailed hint msg\<close> carries the advice
  added to the text and the provider's message (\<open>None\<close>: the fixed default text);
  \<open>TaskTimeout id status\<close> carries the task id and the last status. The last three are
  raised by the host: a rejected \<^verbatim>\<open>fetch\<close>, a rejected \<^verbatim>\<open>response.json()\<close>, and a
  property read or method call on a value that does not support it.
\<close>

subsection \<open>Image normalisation\<close>

definition load_image :: "string \<Rightarrow> world \<Rightarrow> (load_failure + string) \<times> world" where
  \<comment> \<open>the body of both \<^verbatim>\<open>try\<close> blocks of \<^verbatim>\<open>convertToBase64\<close>: fetch, blob, \<^verbatim>\<open>imageToBase64\<close>\<close>
  "load_image img w =
     (case fetch (ImageFetch img) w of
        (Rejected msg, w') \<Rightarrow> (Inl (FetchRejected msg), w')
      | (Responded r, w') \<Rightarrow>
          if \<not> ok r then (Inl (NotOk (status r)), w')
          else if blob_size r = 0 then (Inl EmptyBlob, w')
          else (case blob_data_url r of
                  Inl msg \<Rightarrow> (Inl (ReadFailed msg), w')
                | Inr base64 \<Rightarrow>
                    if base64 = [] \<or> length base64 < 100 then (Inl TooShort, w')
                    else (Inr base64, w')))"

definition convertToBase64 :: "string \<Rightarrow> world \<Rightarrow> (error + string) \<times> world" where
  "convertToBase64 img w =
     (if img = [] \<or> length (trim img) = 0 then (Inl ImageEmpty, w)
      else if startsWith img ''data:'' then
        (if length img < 100 then (Inl Base64TooShort, w)
         else (case match_data_url ''data:image/'' img of
                 None \<Rightarrow> (Inl Base64Invalid, w)
               | Some (m, payload) \<Rightarrow>
                   if length payload < 50 then (Inl Base64Invalid, w)
                   else (Inr img, w)))
      else if startsWith img ''blob:'' then
        (case load_image img w of
           (Inl f, w') \<Rightarrow> (Inl (BlobConvertFailed f), w')
         | (Inr base64, w') \<Rightarrow> (Inr base64, w'))
      else
        (case load_image img w of
           (Inl f, w') \<Rightarrow> (Inl (ImageLoadFailed f), w')
         | (Inr base64, w') \<Rightarrow> (Inr base64, w')))"

definition convert_optional ::
  "string option \<Rightarrow> world \<Rightarrow> (error + string option) \<times> world" where
  \<comment> \<open>\<^verbatim>\<open>if (params.roleImage) { roleBase64 = await convertToBase64(params.roleImage) }\<close>\<close>
  "convert_optional img w =
     (case img of
        None \<Rightarrow> (Inr None, w)
      | Some i \<Rightarrow>
          if i = [] then (Inr None, w)
          else (case convertToBase64 i w of
                  (Inl e, w') \<Rightarrow> (Inl e, w')
                | (Inr b, w') \<Rightarrow> (Inr (Some b), w')))"

subsection \<open>Building the request\<close>

record AIImageConfig =
  apiEndpoint :: string
  apiKey :: string
  modelName :: string

record GenerateAIImageParams =
  prompt :: string
  negativePrompt :: "string option"
  storyboardImage :: string
  roleImage :: "string option"
  sceneImage :: "string option"
  aspectRatio :: string
  onProgress :: bool

text \<open>\<open>onProgress\<close> says whether the caller supplied the callback.\<close>

definition negative_prompt_given :: "GenerateAIImageParams \<Rightarrow> string option" where
  \<comment> \<open>\<^verbatim>\<open>params.negativePrompt && params.negativePrompt.trim()\<close>\<close>
  "negative_prompt_given params =
     (case negativePrompt params of
        None \<Rightarrow> None
      | Some n \<Rightarrow> if n \<noteq> [] \<and> trim n \<noteq> [] then Some n else None)"

definition gemini_reference :: "string option \<Rightarrow> gemini_part list" where
  \<comment> \<open>the part pushed for the role image, and in the same way for the scene image\<close>
  "gemini_reference ref =
     (case ref of
        None \<Rightarrow> []
      | Some b \<Rightarrow>
          if b = [] then []
          else (let (m, d) = extractBase64 b
                in if d \<noteq> [] \<and> 100 \<le> length d then [InlineData m d] else []))"

definition build_gemini ::
  "GenerateAIImageParams \<Rightarrow> string \<Rightarrow> jsnum \<times> jsnum \<Rightarrow> string \<Rightarrow> string option
     \<Rightarrow> string option \<Rightarrow> request_body" where
  "build_gemini params ratio dims storyboardBase64 roleBase64 sceneBase64 =
     (let (sm, sd) = extractBase64 storyboardBase64;
          fullPrompt = TextPart (prompt params)
             (if ratio \<noteq> [] \<and> ratio \<noteq> ''auto'' then Some (ratio, dims) else None)
             (negative_prompt_given params)
      in GeminiBody ([fullPrompt, InlineData sm sd]
                     @ gemini_reference roleBase64 @ gemini_reference sceneBase64))"

definition nano_reference :: "string option \<Rightarrow> string list" where
  "nano_reference ref =
     (case ref of
        None \<Rightarrow> []
      | Some b \<Rightarrow>
          if b = [] then []
          else (let p = extractPureBase64 b
                in if p \<noteq> [] \<and> 100 \<le> length p then [p] else []))"

definition build_nano ::
  "AIImageConfig \<Rightarrow> GenerateAIImageParams \<Rightarrow> string \<Rightarrow> jsnum \<times> jsnum \<Rightarrow> string
     \<Rightarrow> string option \<Rightarrow> string option \<Rightarrow> error + request_body" where
  "build_nano config params ratio dims storyboardBase64 roleBase64 sceneBase64 =
     (let storyboardPureBase64 = extractPureBase64 storyboardBase64
      in if storyboardPureBase64 = [] \<or> length storyboardPureBase64 < 100
         then Inl NanoStoryboardIncomplete
         else
           (let urls = [storyboardPureBase64] @ nano_reference roleBase64
                       @ nano_reference sceneBase64
            in Inr (NanoBody
                 \<lparr> nb_model = or_default (Some (modelName config)) ''nano-banana'',
                   nb_prompt = prompt params,
                   nb_imageSize = dims,
                   nb_aspectRatio = ratio,
                   nb_webhook = (if ratio = ''auto'' then ''-1'' else []),
                   nb_shutProgress = False,
                   nb_urls = (if 0 < length urls then urls else [''base64'']),
                   nb_negativePrompt = negative_prompt_given params \<rparr>)))"

definition generic_reference :: "string \<Rightarrow> string option \<Rightarrow> (string \<times> field) list" where
  \<comment> \<open>\<^verbatim>\<open>if (roleBase64 && roleBase64.length >= 100) requestBody.reference_image = roleBase64\<close>\<close>
  "generic_reference key ref =
     (case ref of
        None \<Rightarrow> []
      | Some b \<Rightarrow> if b \<noteq> [] \<and> 100 \<le> length b then [(key, FStr b)] else [])"

definition build_generic ::
  "AIImageConfig \<Rightarrow> GenerateAIImageParams \<Rightarrow> jsnum \<times> jsnum \<Rightarrow> string
     \<Rightarrow> string option \<Rightarrow> string option \<Rightarrow> error + request_body" where
  "build_generic config params dims storyboardBase64 roleBase64 sceneBase64 =
     (if storyboardBase64 = [] \<or> length storyboardBase64 < 100
      then Inl GenericStoryboardIncomplete
      else Inr (GenericBody
             ([(''model'', FStr (modelName config)),
               (''prompt'', FStr (prompt params)),
               (''n'', FNum 1),
               (''image'', FStr storyboardBase64),
               (''size'', FSize (fst dims) (snd dims))]
              @ generic_reference ''reference_image'' roleBase64
              @ generic_reference ''scene_image'' sceneBase64
              @ (case negative_prompt_given params of
                   None \<Rightarrow> []
                 | Some n \<Rightarrow> [(''negative_prompt'', FStr n)]))))"

definition bearer_headers :: "AIImageConfig \<Rightarrow> (string \<times> string) list" where
  "bearer_headers config =
     [(''Content-Type'', ''application/json''),
      (''Authorization'', ''Bearer '' @ apiKey config)]"

definition build_request ::
  "AIImageConfig \<Rightarrow> GenerateAIImageParams \<Rightarrow> string \<Rightarrow> string \<Rightarrow> string option
     \<Rightarrow> string option \<Rightarrow> error + http_request" where
  \<comment> \<open>the three branches of \<^verbatim>\<open>generateAIImage\<close> that fill \<^verbatim>\<open>requestBody\<close>, \<^verbatim>\<open>apiUrl\<close>, \<^verbatim>\<open>headers\<close>\<close>
  "build_request config params endpoint storyboardBase64 roleBase64 sceneBase64 =
     (let ratio = or_default (Some (aspectRatio params)) ''16:9'';
          dims = calculateImageSize ratio (Fin 1024)
      in if isGeminiAPI endpoint then
           Inr \<lparr> rq_endpoint = endpoint, rq_key_param = Some (apiKey config),
                 rq_headers = [(''Content-Type'', ''application/json'')],
                 rq_body = build_gemini params ratio dims storyboardBase64 roleBase64
                             sceneBase64 \<rparr>
         else if isNanoBananaAPI endpoint then
           (case build_nano config params ratio dims storyboardBase64 roleBase64
                   sceneBase64 of
              Inl e \<Rightarrow> Inl e
            | Inr b \<Rightarrow> Inr \<lparr> rq_endpoint = endpoint, rq_key_param = None,
                             rq_headers = bearer_headers config, rq_body = b \<rparr>)
         else
           (case build_generic config params dims storyboardBase64 roleBase64
                   sceneBase64 of
              Inl e \<Rightarrow> Inl e
            | Inr b \<Rightarrow> Inr \<lparr> rq_endpoint = endpoint, rq_key_param = None,
                             rq_headers = bearer_headers config, rq_body = b \<rparr>))"






subsection \<open>Values of a parsed response\<close>

record platform =
  JSON_parse :: "string \<Rightarrow> json option"
  URL_parses :: "string \<Rightarrow> bool"
  JSON_stringify :: "json \<Rightarrow> string"
  String_of :: "json \<Rightarrow> string"
  Number_of :: "json \<Rightarrow> jsnum"
  scan_serialized :: "json \<Rightarrow> string"

text \<open>
  What the host supplies and the source only calls: \<open>JSON_parse\<close> (\<open>None\<close> when
  \<^verbatim>\<open>JSON.parse\<close> throws), whether \<^verbatim>\<open>new URL(s)\<close> succeeds, \<^verbatim>\<open>JSON.stringify\<close>, the
  conversion of a value that is not a string to a string and of a string, array or object
  to a number, and the search of \<^verbatim>\<open>JSON.stringify(data)\<close> for an embedded data URL or an
  image link (the empty string when there is none). Every function of the client takes the
  host as its first argument, and every general property holds for every host. An object
  lists each key once.
\<close>

fun truthy :: "json \<Rightarrow> bool" where
  "truthy JNull = False"
| "truthy (JBool b) = b"
| "truthy (JNum n) = (n \<noteq> 0)"
| "truthy (JStr s) = (s \<noteq> [])"
| "truthy (JArr xs) = True"
| "truthy (JObj kvs) = True"

definition get_prop :: "json \<Rightarrow> string \<Rightarrow> json option" where
  \<comment> \<open>\<^verbatim>\<open>v.k\<close> for a value that is not null, \<open>None\<close> for undefined\<close>
  "get_prop v k = (case v of JObj kvs \<Rightarrow> map_of kvs k | _ \<Rightarrow> None)"

fun first_truthy_prop :: "json \<Rightarrow> string list \<Rightarrow> json option" where
  \<comment> \<open>\<^verbatim>\<open>v.k1 || v.k2 || ..\<close> when it is truthy\<close>
  "first_truthy_prop v [] = None"
| "first_truthy_prop v (k # ks) =
     (case get_prop v k of
        None \<Rightarrow> first_truthy_prop v ks
      | Some x \<Rightarrow> if truthy x then Some x else first_truthy_prop v ks)"

fun set_prop :: "(string \<times> json) list \<Rightarrow> string \<Rightarrow> json \<Rightarrow> (string \<times> json) list" where
  "set_prop [] k v = [(k, v)]"
| "set_prop ((k', v') # kvs) k v =
     (if k' = k then (k, v) # kvs else (k', v') # set_prop kvs k v)"

definition assign :: "json \<Rightarrow> string \<Rightarrow> json \<Rightarrow> json" where
  \<comment> \<open>\<^verbatim>\<open>d.k = v\<close> on an object\<close>
  "assign d k v = (case d of JObj kvs \<Rightarrow> JObj (set_prop kvs k v) | _ \<Rightarrow> d)"

definition status_in :: "json \<Rightarrow> string list \<Rightarrow> bool" where
  \<comment> \<open>\<^verbatim>\<open>v.status === n1 || v.status === n2 || ..\<close>\<close>
  "status_in v names =
     (case get_prop v ''status'' of Some (JStr s) \<Rightarrow> List.member names s | _ \<Rightarrow> False)"

definition js_string :: "platform \<Rightarrow> json \<Rightarrow> string" where
  "js_string P v = (case v of JStr s \<Rightarrow> s | _ \<Rightarrow> String_of P v)"

definition to_number :: "platform \<Rightarrow> json \<Rightarrow> jsnum" where
  "to_number P v =
     (case v of
        JNum n \<Rightarrow> Fin n
      | JNull \<Rightarrow> Fin 0
      | JBool b \<Rightarrow> Fin (if b then 1 else 0)
      | _ \<Rightarrow> Number_of P v)"

fun js_add :: "jsnum \<Rightarrow> jsnum \<Rightarrow> jsnum" where
  "js_add (Fin a) (Fin b) = Fin (a + b)"
| "js_add NaN b = NaN"
| "js_add a NaN = NaN"
| "js_add PosInf NegInf = NaN"
| "js_add NegInf PosInf = NaN"
| "js_add PosInf b = PosInf"
| "js_add NegInf b = NegInf"
| "js_add (Fin a) b = b"

subsection \<open>Reading an event stream\<close>

definition terminal_status :: "string list" where
  "terminal_status = [''succeeded'', ''completed'', ''failed'', ''error'']"

definition sse_remaining :: "platform \<Rightarrow> string \<Rightarrow> json \<Rightarrow> json" where
  \<comment> \<open>the rest of the buffer, read once a terminal event has been seen\<close>
  "sse_remaining P buffer lastData =
     (if trim buffer \<noteq> [] then
        (let remainingLine = trim buffer
         in if startsWith remainingLine ''data: '' then
              (case JSON_parse P (trim (drop 6 remainingLine)) of
                 None \<Rightarrow> lastData
               | Some remainingJson \<Rightarrow> remainingJson)
            else lastData)
      else lastData)"

definition sse_percent :: "platform \<Rightarrow> json \<Rightarrow> jsnum" where
  \<comment> \<open>\<^verbatim>\<open>10 + (eventData.progress * 0.8)\<close>\<close>
  "sse_percent P p = js_add (Fin 10) (js_mul (to_number P p) (Fin (8 / 10)))"

fun sse_lines ::
  "platform \<Rightarrow> bool \<Rightarrow> string \<Rightarrow> string list \<Rightarrow> json \<Rightarrow> world \<Rightarrow> json \<times> world" where
  \<comment> \<open>the loop over the complete lines of the buffer; the result is \<^verbatim>\<open>lastData\<close>\<close>
  "sse_lines P cb buffer [] lastData w = (lastData, w)"
| "sse_lines P cb buffer (line # rest) lastData w =
     (if startsWith line ''data: '' then
        (let jsonStr = trim (drop 6 line)
         in if jsonStr = [] then sse_lines P cb buffer rest lastData w
            else
              (case JSON_parse P jsonStr of
                 None \<Rightarrow> sse_lines P cb buffer rest lastData w
               | Some eventData \<Rightarrow>
                   if eventData = JNull then sse_lines P cb buffer rest JNull w
                   else
                     (let w' = (case get_prop eventData ''progress'' of
                                  None \<Rightarrow> w
                                | Some p \<Rightarrow> report cb (sse_percent P p) w)
                      in if status_in eventData terminal_status
                         then (sse_remaining P buffer eventData, w')
                         else sse_lines P cb buffer rest eventData w')))
      else sse_lines P cb buffer rest lastData w)"

definition pop_line :: "string list \<Rightarrow> string list \<times> string" where
  \<comment> \<open>\<^verbatim>\<open>buffer = lines.pop() || ''\<close>: the lines before the last one, and the last one\<close>
  "pop_line ls = (case rev ls of [] \<Rightarrow> ([], []) | l # front \<Rightarrow> (rev front, l))"

fun sse_read ::
  "platform \<Rightarrow> bool \<Rightarrow> string list \<Rightarrow> string \<Rightarrow> json \<Rightarrow> world \<Rightarrow> json \<times> world" where
  \<comment> \<open>the loop over the chunks of the reader; it ends with the chunks\<close>
  "sse_read P cb [] buffer lastData w = (lastData, w)"
| "sse_read P cb (chunk # chunks) buffer lastData w =
     (let (ls, buffer') = pop_line (split_on (CHR 0x0A) (buffer @ chunk));
          (lastData', w') = sse_lines P cb buffer' ls lastData w
      in if truthy lastData' \<and> status_in lastData' terminal_status then (lastData', w')
         else sse_read P cb chunks buffer' lastData' w')"

definition read_event_stream ::
  "platform \<Rightarrow> bool \<Rightarrow> response \<Rightarrow> world \<Rightarrow> (error + json) \<times> world" where
  "read_event_stream P cb r w =
     (case body_reader r of
        None \<Rightarrow> (Inl NoStreamReader, w)
      | Some chunks \<Rightarrow>
          (let (lastData, w') = sse_read P cb chunks [] JNull w
           in if \<not> truthy lastData then (Inl NoSSEData, w') else (Inr lastData, w')))"

subsection \<open>Polling for the result of a task\<close>

abbreviation (input) maxRetries :: nat where "maxRetries \<equiv> 3"
abbreviation (input) maxPollingAttempts :: nat where "maxPollingAttempts \<equiv> 30"
abbreviation (input) pollingInterval :: nat where "pollingInterval \<equiv> 2000"

definition image_keys :: "string list" where
  "image_keys = [''image'', ''url'', ''data'', ''base64'']"

definition png_prefix :: string where
  "png_prefix = ''data:image/png;base64,''"

definition result_image :: "json \<Rightarrow> error + json option" where
  \<comment> \<open>\<^verbatim>\<open>resultImage\<close> as read from \<^verbatim>\<open>results\<close> or from the top level; \<open>None\<close> for null\<close>
  "result_image d =
     (case first_truthy_prop d [''results''] of
        Some (JArr (r # rs)) \<Rightarrow>
          if r = JNull then Inl TypeError else Inr (first_truthy_prop r image_keys)
      | Some (JArr []) \<Rightarrow> Inr None
      | Some (JObj kvs) \<Rightarrow> Inr (first_truthy_prop (JObj kvs) image_keys)
      | Some v \<Rightarrow> Inr None
      | None \<Rightarrow> Inr (first_truthy_prop d image_keys))"

definition task_failure :: "bool \<Rightarrow> json \<Rightarrow> error" where
  \<comment> \<open>the error thrown for a failed task; the rate-limit and authentication advice exists
      only in the first of the two copies (\<open>full\<close>)\<close>
  "task_failure full d =
     (let errorMsg = first_truthy_prop d [''error'', ''failure_reason'', ''message'']
      in if get_prop d ''failure_reason'' = Some (JStr ''output_moderation'')
         then TaskFailed Moderation errorMsg
         else
           (case errorMsg of
              None \<Rightarrow> TaskFailed NoHint None
            | Some (JStr s) \<Rightarrow>
                (let l = toLowerCase s
                 in if includes_str l ''moderation'' \<or> includes_str l ''policy''
                    then TaskFailed Moderation errorMsg
                    else if full \<and> (includes_str l ''rate limit'' \<or> includes_str l ''quota'')
                    then TaskFailed RateLimit errorMsg
                    else if full \<and> (includes_str l ''auth'' \<or> includes_str l ''key'')
                    then TaskFailed Auth errorMsg
                    else TaskFailed NoHint errorMsg)
            | Some v \<Rightarrow> TypeError))"

definition rethrown :: "platform \<Rightarrow> error \<Rightarrow> bool" where
  \<comment> \<open>\<^verbatim>\<open>pollError.message && !pollError.message.includes('fetch')\<close>, for the errors that
      arise inside the \<^verbatim>\<open>try\<close> of the polling loop; the fixed texts around the variable
      part of a message do not contain the word\<close>
  "rethrown P e =
     (case e of
        FetchError m \<Rightarrow> m \<noteq> [] \<and> \<not> includes_str m ''fetch''
      | JsonError m \<Rightarrow> m \<noteq> [] \<and> \<not> includes_str m ''fetch''
      | TaskFailed h msg \<Rightarrow>
          (case msg of None \<Rightarrow> True | Some v \<Rightarrow> \<not> includes_str (js_string P v) ''fetch'')
      | _ \<Rightarrow> True)"

datatype poll_step = StillPending | Completed string | PollThrow error

definition poll_catch :: "platform \<Rightarrow> error \<Rightarrow> poll_step" where
  "poll_catch P e = (if rethrown P e then PollThrow e else StillPending)"

definition poll_once ::
  "platform \<Rightarrow> AIImageConfig \<Rightarrow> json \<Rightarrow> world \<Rightarrow> poll_step \<times> world" where
  \<comment> \<open>one pass through the \<^verbatim>\<open>try\<close> of the polling loop\<close>
  "poll_once P config taskId w =
     (case fetch (ResultCall (apiEndpoint config) taskId) w of
        (Rejected msg, w') \<Rightarrow> (poll_catch P (FetchError msg), w')
      | (Responded r, w') \<Rightarrow>
          if \<not> ok r then (StillPending, w')
          else
            (case body_json r of
               Inl msg \<Rightarrow> (poll_catch P (JsonError msg), w')
             | Inr resultData \<Rightarrow>
                 if resultData = JNull then (poll_catch P TypeError, w')
                 else if status_in resultData [''completed'', ''success''] then
                   (case result_image resultData of
                      Inl e \<Rightarrow> (poll_catch P e, w')
                    | Inr None \<Rightarrow> (StillPending, w')
                    | Inr (Some (JStr s)) \<Rightarrow>
                        (Completed
                           (if \<not> startsWith s ''data:'' \<and> \<not> startsWith s ''http''
                               \<and> \<not> startsWith s ''blob:''
                            then png_prefix @ s else s), w')
                    | Inr (Some v) \<Rightarrow> (poll_catch P TypeError, w'))
                 else if status_in resultData [''failed'', ''error''] then
                   (poll_catch P (task_failure False resultData), w')
                 else (StillPending, w')))"

function poll_loop ::
  "platform \<Rightarrow> bool \<Rightarrow> AIImageConfig \<Rightarrow> json \<Rightarrow> nat \<Rightarrow> world
     \<Rightarrow> (error + string option) \<times> world" where
  \<comment> \<open>the \<^verbatim>\<open>for\<close> loop from \<open>attempt\<close> on: \<open>Inr (Some image)\<close> when a poll completed the
      task, \<open>Inr None\<close> when the loop ran out\<close>
  "poll_loop P cb config taskId attempt w =
     (if attempt < maxPollingAttempts then
        (let w1 = sleep pollingInterval w;
             w2 = report cb
                    (Fin (50 + min 30 (of_nat attempt / of_nat maxPollingAttempts * 30))) w1
         in case poll_once P config taskId w2 of
              (StillPending, w3) \<Rightarrow> poll_loop P cb config taskId (attempt + 1) w3
            | (Completed img, w3) \<Rightarrow> (Inr (Some img), w3)
            | (PollThrow e, w3) \<Rightarrow> (Inl e, w3))
      else (Inr None, w))"
  by pat_completeness auto
termination
  by (relation "measure (\<lambda>(P, cb, config, taskId, attempt, w). maxPollingAttempts - attempt)")
     auto

declare poll_loop.simps [simp del]

subsection \<open>From the response to the image\<close>

definition completed_image :: "json \<Rightarrow> error + json" where
  \<comment> \<open>for a completed task, \<^verbatim>\<open>data.image\<close> is set from the results\<close>
  "completed_image d =
     (if status_in d [''completed'', ''success'', ''succeeded''] then
        (case result_image d of
           Inl e \<Rightarrow> Inl e
         | Inr None \<Rightarrow> Inr d
         | Inr (Some (JStr s)) \<Rightarrow>
             Inr (assign d ''image''
                    (JStr (if startsWith s ''http://'' \<or> startsWith s ''https://'' then s
                           else if \<not> startsWith s ''data:'' \<and> \<not> startsWith s ''blob:''
                           then png_prefix @ s else s)))
         | Inr (Some v) \<Rightarrow> Inl TypeError)
      else Inr d)"

definition resolve_status ::
  "platform \<Rightarrow> bool \<Rightarrow> AIImageConfig \<Rightarrow> bool \<Rightarrow> json \<Rightarrow> world \<Rightarrow> (error + json) \<times> world"
  where
  \<comment> \<open>the block \<^verbatim>\<open>if (data.status) { .. }\<close>; the result is \<^verbatim>\<open>data\<close> as the block leaves it\<close>
  "resolve_status P cb config isNano d w =
     (case first_truthy_prop d [''status''] of
        None \<Rightarrow> (Inr d, w)
      | Some st \<Rightarrow>
          if status_in d [''failed'', ''error''] then (Inl (task_failure True d), w)
          else if status_in d [''pending'', ''processing'', ''in_progress''] then
            (case first_truthy_prop d [''id'', ''task_id'', ''job_id''] of
               None \<Rightarrow> (Inl (TaskPending st None), w)
             | Some taskId \<Rightarrow>
                 if isNano then
                   (case poll_loop P cb config taskId 0 (report cb (Fin 50) w) of
                      (Inl e, w') \<Rightarrow> (Inl e, w')
                    | (Inr None, w') \<Rightarrow> (Inl (TaskTimeout taskId st), w')
                    | (Inr (Some img), w') \<Rightarrow>
                        (completed_image
                           (assign (assign d ''image'' (JStr img)) ''status''
                              (JStr ''completed'')), w'))
                 else (Inl (TaskPending st (Some taskId)), w))
          else (completed_image d, w))"

fun scan_parts :: "platform \<Rightarrow> json list \<Rightarrow> error + json" where
  \<comment> \<open>the loop over \<^verbatim>\<open>candidate.content.parts\<close>; the result is \<^verbatim>\<open>generatedImage\<close>\<close>
  "scan_parts P [] = Inr (JStr [])"
| "scan_parts P (part # rest) =
     (if part = JNull then Inl TypeError
      else
        (case first_truthy_prop part [''inlineData'', ''inline_data''] of
           None \<Rightarrow> scan_parts P rest
         | Some inlineData \<Rightarrow>
             (case first_truthy_prop inlineData [''data''] of
                None \<Rightarrow> scan_parts P rest
              | Some dat \<Rightarrow>
                  (let mimeType =
                         (case first_truthy_prop inlineData [''mimeType'', ''mime_type''] of
                            None \<Rightarrow> ''image/png''
                          | Some m \<Rightarrow> js_string P m)
                   in Inr (JStr (''data:'' @ mimeType @ '';base64,'' @ js_string P dat))))))"

definition from_candidates :: "platform \<Rightarrow> json \<Rightarrow> error + json" where
  "from_candidates P d =
     (case get_prop d ''candidates'' of
        Some (JArr (candidate # cs)) \<Rightarrow>
          if candidate = JNull then Inl TypeError
          else
            (case first_truthy_prop candidate [''content''] of
               None \<Rightarrow> Inr (JStr [])
             | Some content \<Rightarrow>
                 (case first_truthy_prop content [''parts''] of
                    None \<Rightarrow> Inr (JStr [])
                  | Some (JArr ps) \<Rightarrow> scan_parts P ps
                  | Some (JStr s) \<Rightarrow> Inr (JStr [])
                  | Some v \<Rightarrow> Inl TypeError))
      | _ \<Rightarrow> Inr (JStr []))"

definition from_data_array :: "json \<Rightarrow> json \<Rightarrow> error + json" where
  "from_data_array g d =
     (if truthy g then Inr g
      else
        (case get_prop d ''data'' of
           Some (JArr (item # items)) \<Rightarrow>
             if item = JNull then Inl TypeError
             else
               (case first_truthy_prop item [''url'', ''b64_json'', ''image''] of
                  None \<Rightarrow> Inr (JStr [])
                | Some (JStr s) \<Rightarrow>
                    Inr (JStr (if \<not> startsWith s ''data:'' \<and> \<not> startsWith s ''http''
                               then png_prefix @ s else s))
                | Some v \<Rightarrow> Inl TypeError)
         | _ \<Rightarrow> Inr g))"

definition from_generic :: "json \<Rightarrow> json \<Rightarrow> json" where
  "from_generic g d =
     (if truthy g then g
      else
        (case get_prop d ''images'' of
           Some (JArr (i # is)) \<Rightarrow> i
         | _ \<Rightarrow>
             (case (case get_prop d ''result'' of
                      None \<Rightarrow> None
                    | Some r \<Rightarrow> first_truthy_prop r [''image'']) of
                Some v \<Rightarrow> v
              | None \<Rightarrow>
                  (case first_truthy_prop d [''image'', ''url''] of
                     Some v \<Rightarrow> v
                   | None \<Rightarrow>
                       (case get_prop d ''data'' of
                          Some (JStr s) \<Rightarrow>
                            if s \<noteq> [] then
                              JStr (if startsWith s ''data:'' then s else png_prefix @ s)
                            else g
                        | _ \<Rightarrow> g)))))"

definition extract_generated_image :: "platform \<Rightarrow> json \<Rightarrow> error + string" where
  \<comment> \<open>the four attempts to find the image, in their order, and the final check\<close>
  "extract_generated_image P d =
     (case from_candidates P d of
        Inl e \<Rightarrow> Inl e
      | Inr g1 \<Rightarrow>
          (case from_data_array g1 d of
             Inl e \<Rightarrow> Inl e
           | Inr g2 \<Rightarrow>
               (let g3 = from_generic g2 d;
                    g4 = (if truthy g3 then g3 else JStr (scan_serialized P d))
                in if \<not> truthy g4 then Inl (NoImageInResponse d)
                   else (case g4 of JStr s \<Rightarrow> Inr s | _ \<Rightarrow> Inl TypeError))))"

definition downloadImageAsBase64 :: "string \<Rightarrow> world \<Rightarrow> (load_failure + string) \<times> world"
  where
  "downloadImageAsBase64 imageUrl w =
     (case fetch (ImageFetch imageUrl) w of
        (Rejected msg, w') \<Rightarrow> (Inl (FetchRejected msg), w')
      | (Responded r, w') \<Rightarrow>
          if \<not> ok r then (Inl (NotOk (status r)), w')
          else (case blob_data_url r of
                  Inl msg \<Rightarrow> (Inl (ReadFailed msg), w')
                | Inr result \<Rightarrow> (Inr result, w')))"

record GenerateAIImageResult =
  res_image :: string
  res_model :: string

datatype outcome = Return GenerateAIImageResult | Throw error | Continue

text \<open>
  How one pass through the body of the retry loop ends: with \<^verbatim>\<open>return\<close>, with an
  exception that reaches the \<^verbatim>\<open>catch\<close> of the loop, or with \<^verbatim>\<open>continue\<close>.
\<close>

definition http_error_message :: "response \<Rightarrow> http_message" where
  "http_error_message r =
     (if includes_str (content_type r) ''application/json'' then
        (case body_json r of
           Inl msg \<Rightarrow> StatusLine (status r)
         | Inr errorData \<Rightarrow>
             (case get_prop errorData ''error'' of
                None \<Rightarrow> StatusLine (status r)
              | Some err \<Rightarrow>
                  (case first_truthy_prop err [''message''] of
                     None \<Rightarrow> StatusLine (status r)
                   | Some m \<Rightarrow> FromErrorJson m)))
      else FromText (take 200 (body_text r)))"

definition response_data ::
  "platform \<Rightarrow> bool \<Rightarrow> response \<Rightarrow> world \<Rightarrow> (error + json) \<times> world" where
  \<comment> \<open>\<^verbatim>\<open>data\<close>: from the event stream, or the parsed body of a JSON response\<close>
  "response_data P cb r w =
     (if includes_str (content_type r) ''text/event-stream'' then read_event_stream P cb r w
      else if \<not> includes_str (content_type r) ''application/json''
      then (Inl (NotJson (content_type r) (take 300 (body_text r))), w)
      else (case body_json r of
              Inl msg \<Rightarrow> (Inl (JsonError msg), w)
            | Inr d \<Rightarrow> (Inr d, w)))"

definition process_data ::
  "platform \<Rightarrow> bool \<Rightarrow> AIImageConfig \<Rightarrow> bool \<Rightarrow> json \<Rightarrow> world \<Rightarrow> outcome \<times> world" where
  \<comment> \<open>from \<^verbatim>\<open>if (data.status)\<close> to the \<^verbatim>\<open>return\<close>\<close>
  "process_data P cb config isNano d w =
     (if d = JNull then (Throw TypeError, w)
      else
        (case resolve_status P cb config isNano d w of
           (Inl e, w1) \<Rightarrow> (Throw e, w1)
         | (Inr d1, w1) \<Rightarrow>
             (case extract_generated_image P d1 of
                Inl e \<Rightarrow> (Throw e, w1)
              | Inr generatedImage \<Rightarrow>
                  if startsWith generatedImage ''http://''
                     \<or> startsWith generatedImage ''https://'' then
                    (case downloadImageAsBase64 generatedImage (report cb (Fin 95) w1) of
                       (Inl f, w2) \<Rightarrow> (Throw (ImageDownloadFailed f generatedImage), w2)
                     | (Inr b, w2) \<Rightarrow>
                         (Return \<lparr> res_image = b, res_model = modelName config \<rparr>,
                          report cb (Fin 100) w2))
                  else
                    (Return \<lparr> res_image = generatedImage, res_model = modelName config \<rparr>,
                     report cb (Fin 100) w1))))"

subsection \<open>The retry loop and the entry point\<close>

definition attempt ::
  "platform \<Rightarrow> AIImageConfig \<Rightarrow> GenerateAIImageParams \<Rightarrow> http_request \<Rightarrow> nat \<Rightarrow> world
     \<Rightarrow> outcome \<times> world" where
  \<comment> \<open>one pass through the \<^verbatim>\<open>try\<close> block of the loop, at the given \<^verbatim>\<open>retryCount\<close>\<close>
  "attempt P config params rq retryCount w =
     (let cb = onProgress params;
          w1 = report cb (Fin (30 + of_nat retryCount * 10)) w
      in case fetch (GenerateCall rq) w1 of
           (Rejected msg, w2) \<Rightarrow> (Throw (FetchError msg), w2)
         | (Responded r, w2) \<Rightarrow>
             (let w3 = report cb (Fin 70) w2
              in if \<not> ok r then
                   (if status r = 401 then (Throw (AuthFailed (http_error_message r)), w3)
                    else if status r = 429 \<and> retryCount < maxRetries - 1
                    then (Continue, sleep (1000 * (retryCount + 1)) w3)
                    else (Throw (ApiCallFailed (http_error_message r)), w3))
                 else
                   (case response_data P cb r w3 of
                      (Inl e, w4) \<Rightarrow> (Throw e, w4)
                    | (Inr d, w4) \<Rightarrow>
                        process_data P cb config (isNanoBananaAPI (rq_endpoint rq)) d
                          (report cb (Fin 90) w4))))"

function run_attempts ::
  "platform \<Rightarrow> AIImageConfig \<Rightarrow> GenerateAIImageParams \<Rightarrow> http_request \<Rightarrow> nat \<Rightarrow> world
     \<Rightarrow> (error + GenerateAIImageResult) \<times> world" where
  \<comment> \<open>\<^verbatim>\<open>while (retryCount < maxRetries) { try { .. } catch (error) { .. } }\<close> and the
      \<^verbatim>\<open>throw\<close> after it\<close>
  "run_attempts P config params rq retryCount w =
     (if retryCount < maxRetries then
        (case attempt P config params rq retryCount w of
           (Return res, w') \<Rightarrow> (Inr res, w')
         | (Continue, w') \<Rightarrow> run_attempts P config params rq (retryCount + 1) w'
         | (Throw e, w') \<Rightarrow>
             if maxRetries \<le> retryCount + 1 then (Inl e, w')
             else run_attempts P config params rq (retryCount + 1)
                    (sleep (1000 * (retryCount + 1)) w'))
      else (Inl RetriesExhausted, w))"
  by pat_completeness auto
termination
  by (relation "measure (\<lambda>(P, config, params, rq, retryCount, w). maxRetries - retryCount)")
     auto

declare run_attempts.simps [simp del]

definition generateAIImage ::
  "platform \<Rightarrow> AIImageConfig option \<Rightarrow> GenerateAIImageParams \<Rightarrow> world
     \<Rightarrow> (error + GenerateAIImageResult) \<times> world" where
  \<comment> \<open>the second argument is what \<^verbatim>\<open>getAIImageConfig()\<close> returns\<close>
  "generateAIImage P stored params w =
     (case stored of
        None \<Rightarrow> (Inl ConfigMissing, w)
      | Some config \<Rightarrow>
          if apiEndpoint config = [] \<or> apiKey config = [] \<or> modelName config = []
          then (Inl ConfigIncomplete, w)
          else
            (let endpoint = trim (apiEndpoint config)
             in case convertToBase64 (storyboardImage params) w of
                  (Inl e, w1) \<Rightarrow> (Inl e, w1)
                | (Inr storyboardBase64, w1) \<Rightarrow>
                    if storyboardBase64 = [] \<or> length storyboardBase64 < 100
                    then (Inl StoryboardInvalid, w1)
                    else
                      (case convert_optional (roleImage params) w1 of
                         (Inl e, w2) \<Rightarrow> (Inl e, w2)
                       | (Inr roleBase64, w2) \<Rightarrow>
                           (case convert_optional (sceneImage params) w2 of
                              (Inl e, w3) \<Rightarrow> (Inl e, w3)
                            | (Inr sceneBase64, w3) \<Rightarrow>
                                if \<not> URL_parses P endpoint
                                then (Inl (EndpointInvalid endpoint), w3)
                                else
                                  (case build_request config params endpoint
                                          storyboardBase64 roleBase64 sceneBase64 of
                                     Inl e \<Rightarrow> (Inl e, w3)
                                   | Inr rq \<Rightarrow>
                                       run_attempts P config params rq 0
                                         (report (onProgress params) (Fin 10) w3))))))"

subsection \<open>Validating a configuration\<close>






subsection \<open>Observations and sample inputs\<close>

fun generate_calls :: "request list \<Rightarrow> http_request list" where
  \<comment> \<open>the requests sent to the generation endpoint, in their order\<close>
  "generate_calls [] = []"
| "generate_calls (GenerateCall rq # rs) = rq # generate_calls rs"
| "generate_calls (ResultCall e t # rs) = generate_calls rs"
| "generate_calls (ImageFetch u # rs) = generate_calls rs"
| "generate_calls (ValidateCall e p # rs) = generate_calls rs"

fun result_calls :: "request list \<Rightarrow> json list" where
  \<comment> \<open>the task ids of the polls sent to the result endpoint, in their order\<close>
  "result_calls [] = []"
| "result_calls (ResultCall e t # rs) = t # result_calls rs"
| "result_calls (GenerateCall rq # rs) = result_calls rs"
| "result_calls (ImageFetch u # rs) = result_calls rs"
| "result_calls (ValidateCall e p # rs) = result_calls rs"


fun nondecreasing :: "jsnum list \<Rightarrow> bool" where
  "nondecreasing [] = True"
| "nondecreasing [x] = True"
| "nondecreasing (x # y # rest) = (js_ge y x \<and> nondecreasing (y # rest))"

definition data_url :: "nat \<Rightarrow> string" where
  \<comment> \<open>a PNG data URL whose payload has \<open>n\<close> characters: the encoding of zero bytes\<close>
  "data_url n = ''data:image/png;base64,'' @ replicate n (CHR ''A'')"

definition json_response :: "nat \<Rightarrow> json \<Rightarrow> response" where
  "json_response code d =
     \<lparr> status = code, content_type = ''application/json'', body_text = [],
       body_json = Inr d, body_reader = None, blob_size = 0, blob_data_url = Inl [] \<rparr>"



definition running_event :: string where
  "running_event = ''{\"status\":\"running\"}''"

definition sample_platform :: platform where
  \<comment> \<open>a host for the examples: its \<^verbatim>\<open>JSON.parse\<close> is given on the one event text that the
      examples use and rejects the text \<^verbatim>\<open>not json\<close>, and its URL parser accepts the absolute
      addresses that the examples use; its \<^verbatim>\<open>JSON.stringify\<close> is given on the value null,
      the one value that the examples serialise; no example reaches its other operations\<close>
  "sample_platform =
     \<lparr> JSON_parse = (\<lambda>s. if s = running_event
                           then Some (JObj [(''status'', JStr ''running'')]) else None),
       URL_parses = (\<lambda>s. startsWith s ''https://''),
       JSON_stringify = (\<lambda>d. if d = JNull then ''null'' else []),
       String_of = (\<lambda>d. []),
       Number_of = (\<lambda>d. NaN),
       scan_serialized = (\<lambda>d. []) \<rparr>"

definition world_with :: "fetch_result list \<Rightarrow> world" where
  "world_with answers = \<lparr> pending = answers, sent = [], reported = [], slept = [] \<rparr>"

definition config_for :: "string \<Rightarrow> AIImageConfig" where
  "config_for endpoint = \<lparr> apiEndpoint = endpoint, apiKey = ''key'', modelName = ''model'' \<rparr>"

definition sample_params :: "string \<Rightarrow> GenerateAIImageParams" where
  "sample_params ratio =
     \<lparr> prompt = ''a cat'', negativePrompt = None, storyboardImage = data_url 100,
       roleImage = None, sceneImage = None, aspectRatio = ratio, onProgress = True \<rparr>"

definition gemini_endpoint :: string where
  "gemini_endpoint = ''https://g.example.com/v1beta/models/m:generateContent''"

definition nano_endpoint :: string where
  "nano_endpoint = ''https://n.example.com/v1/draw/nano-banana''"


definition pending_task :: json where
  "pending_task = JObj [(''id'', JStr ''t1''), (''status'', JStr ''pending'')]"

definition answered_with_image :: world where
  \<comment> \<open>a world whose first answer is a JSON body that carries an image\<close>
  "answered_with_image =
     world_with [Responded (json_response 200 (JObj [(''image'', JStr (data_url 4))]))]"

definition pending_answer :: fetch_result where
  \<comment> \<open>the answer of a provider whose task is still pending\<close>
  "pending_answer = Responded (json_response 200 pending_task)"






definition unstreamed :: "fetch_result \<Rightarrow> bool" where
  \<comment> \<open>the answer is not an event stream\<close>
  "unstreamed a =
     (case a of
        Rejected msg \<Rightarrow> True
      | Responded r \<Rightarrow> \<not> includes_str (content_type r) ''text/event-stream'')"

section \<open>Properties\<close>

subsection \<open>Provider classification\<close>

lemma includes_str_set: "includes_str s p \<Longrightarrow> set p \<subseteq> set s"
proof (induction s)
  case Nil
  then show ?case by simp
next
  case (Cons c cs)
  show ?case
  proof (cases "startsWith (c # cs) p")
    case True
    then have "p = take (length p) (c # cs)" by (simp add: startsWith_def)
    then have "set p \<subseteq> set (c # cs)" by (metis set_take_subset)
    then show ?thesis .
  next
    case False
    with Cons show ?thesis by auto
  qed
qed

lemma lower_char_not_upper_C: "lower_char c \<noteq> CHR ''C''"
proof -
  have "(of_char (lower_char c) :: nat) \<noteq> 67"
    unfolding lower_char_def Let_def by (auto simp: mod_if)
  then show ?thesis by auto
qed

text \<open>
  In \<^verbatim>\<open>generateAIImage\<close> the provider is a function of the trimmed endpoint text alone:
  GEMINI when both markers of a model invocation occur in it, otherwise ASYNC_TASK when
  the marker of a task submission occurs, otherwise GENERIC.
\<close>

lemma classification_in_generate:
  "provider_in_generate e =
     (if includes_str (trim e) ''/v1beta/models/'' \<and> includes_str (trim e) '':generateContent''
      then GEMINI
      else if includes_str (trim e) ''/v1/draw/'' then ASYNC_TASK else GENERIC)"
  by (simp add: provider_in_generate_def classify_def isGeminiAPI_def isNanoBananaAPI_def)

text \<open>
  In \<^verbatim>\<open>validateAPIConfig\<close> the markers are looked for in the lower-cased endpoint. The
  marker \<^verbatim>\<open>:generateContent\<close> has an upper-case letter, so it never occurs there, and no
  endpoint is classified as GEMINI.
\<close>

lemma classification_in_validate_never_gemini: "provider_in_validate e \<noteq> GEMINI"
proof -
  have "\<not> includes_str (toLowerCase e) '':generateContent''"
  proof
    assume "includes_str (toLowerCase e) '':generateContent''"
    then have "CHR ''C'' \<in> set (toLowerCase e)" using includes_str_set by fastforce
    then obtain x where "lower_char x = CHR ''C''" by (auto simp: toLowerCase_def)
    then show False using lower_char_not_upper_C by blast
  qed
  then show ?thesis by (simp add: provider_in_validate_def classify_def isGeminiAPI_def)
qed

text \<open>
  Claim C9. Provider classification is a total function of the endpoint text that yields
  GEMINI when the model-invocation segments are present, ASYNC_TASK when the
  task-submission segment is present, and GENERIC otherwise. On the endpoint of a Gemini
  model the classification of \<^verbatim>\<open>generateAIImage\<close> yields GEMINI, as the claim says, and
  the classification of \<^verbatim>\<open>validateAPIConfig\<close> yields GENERIC.
\<close>

theorem validate_misclassifies_gemini_endpoint:
  "provider_in_generate gemini_endpoint = GEMINI
   \<and> provider_in_validate gemini_endpoint = GENERIC"
  by code_simp

subsection \<open>Image size\<close>









subsection \<open>The images of a request body\<close>




subsection \<open>Image normalisation\<close>

lemma generate_calls_append [simp]:
  "generate_calls (xs @ ys) = generate_calls xs @ generate_calls ys"
  by (induction xs rule: generate_calls.induct) auto

lemma result_calls_append [simp]:
  "result_calls (xs @ ys) = result_calls xs @ result_calls ys"
  by (induction xs rule: result_calls.induct) auto

lemma load_image_effect:
  assumes "load_image img w = (r, w')"
  shows "generate_calls (sent w') = generate_calls (sent w)
         \<and> result_calls (sent w') = result_calls (sent w)
         \<and> reported w' = reported w \<and> slept w' = slept w"
  using assms
  by (auto simp: load_image_def fetch_def Let_def
           split: list.splits fetch_result.splits if_splits sum.splits)


lemma convertToBase64_effect:
  assumes "convertToBase64 img w = (r, w')"
  shows "generate_calls (sent w') = generate_calls (sent w)
         \<and> result_calls (sent w') = result_calls (sent w)
         \<and> reported w' = reported w \<and> slept w' = slept w"
  using assms load_image_effect[of img w]
  by (auto simp: convertToBase64_def split: if_splits option.splits prod.splits sum.splits)



lemma convert_optional_effect:
  assumes "convert_optional img w = (r, w')"
  shows "generate_calls (sent w') = generate_calls (sent w)
         \<and> result_calls (sent w') = result_calls (sent w)
         \<and> reported w' = reported w \<and> slept w' = slept w"
proof (cases img)
  case None
  with assms show ?thesis by (simp add: convert_optional_def)
next
  case (Some i)
  show ?thesis
  proof (cases "i = []")
    case True
    with assms Some show ?thesis by (simp add: convert_optional_def)
  next
    case False
    obtain r0 w0 where c: "convertToBase64 i w = (r0, w0)" by (cases "convertToBase64 i w")
    with assms Some False have "w' = w0"
      by (auto simp: convert_optional_def split: sum.splits)
    with convertToBase64_effect[OF c] show ?thesis by simp
  qed
qed





subsection \<open>Optional images that are too short\<close>





subsection \<open>Validation of a configuration\<close>



subsection \<open>Retries\<close>

lemma poll_once_pending:
  assumes "pending w = pending_answer # rest"
  shows "poll_once P config tid w
         = (StillPending, w\<lparr>pending := rest, sent := sent w @ [ResultCall (apiEndpoint config) tid]\<rparr>)"
  using assms
  by (simp add: poll_once_def fetch_def pending_answer_def json_response_def ok_def status_in_def
      pending_task_def get_prop_def)

lemma poll_loop_all_pending:
  "pending w = replicate n pending_answer @ rest \<Longrightarrow> n + k = 30 \<Longrightarrow>
   \<exists>w'. poll_loop P cb config tid k w = (Inr None, w') \<and> pending w' = rest
      \<and> generate_calls (sent w') = generate_calls (sent w)
      \<and> result_calls (sent w') = result_calls (sent w) @ replicate n tid
      \<and> sum_list (slept w') = sum_list (slept w) + 2000 * n"
proof (induction n arbitrary: k w)
  case 0
  then show ?case by (simp add: poll_loop.simps)
next
  case (Suc n)
  let ?w2 = "report cb (Fin (50 + min 30 (of_nat k / of_nat 30 * 30))) (sleep 2000 w)"
  have p: "pending ?w2 = pending_answer # (replicate n pending_answer @ rest)"
    using Suc.prems(1) by (simp add: report_def sleep_def)
  let ?w3 = "?w2\<lparr>pending := replicate n pending_answer @ rest, sent := sent ?w2 @ [ResultCall (apiEndpoint config) tid]\<rparr>"
  have o: "poll_once P config tid ?w2 = (StillPending, ?w3)"
    using poll_once_pending[OF p] .
  have "pending ?w3 = replicate n pending_answer @ rest" by simp
  from Suc.IH[OF this, of "k + 1"] Suc.prems(2)
  obtain w' where w': "poll_loop P cb config tid (k + 1) ?w3 = (Inr None, w')" "pending w' = rest"
      "generate_calls (sent w') = generate_calls (sent ?w3)"
      "result_calls (sent w') = result_calls (sent ?w3) @ replicate n tid"
      "sum_list (slept w') = sum_list (slept ?w3) + 2000 * n"
    by auto
  have k: "k < 30" using Suc.prems(2) by simp
  have "poll_loop P cb config tid k w = (Inr None, w')"
    using k o w'(1) by (subst poll_loop.simps) (simp add: Let_def)
  moreover have "generate_calls (sent w') = generate_calls (sent w)"
    using w'(3) by (simp add: report_def sleep_def)
  moreover have "result_calls (sent w') = result_calls (sent w) @ replicate (Suc n) tid"
    using w'(4) by (simp add: report_def sleep_def replicate_append_same)
  moreover have "sum_list (slept w') = sum_list (slept w) + 2000 * Suc n"
    using w'(5) by (simp add: report_def sleep_def)
  ultimately show ?case using w'(2) by blast
qed

lemma attempt_times_out:
  assumes p: "pending w = pending_answer # replicate 30 pending_answer @ rest"
    and n: "isNanoBananaAPI (rq_endpoint rq)"
  shows "\<exists>w'. attempt P config params rq k w
                = (Throw (TaskTimeout (JStr ''t1'') (JStr ''pending'')), w')
            \<and> pending w' = rest
            \<and> generate_calls (sent w') = generate_calls (sent w) @ [rq]
            \<and> result_calls (sent w') = result_calls (sent w) @ replicate 30 (JStr ''t1'')"
proof -
  let ?cb = "onProgress params"
  let ?w1 = "report ?cb (Fin (30 + of_nat k * 10)) w"
  let ?w2 = "?w1\<lparr>pending := replicate 30 pending_answer @ rest, sent := sent ?w1 @ [GenerateCall rq]\<rparr>"
  let ?w4 = "report ?cb (Fin 50) (report ?cb (Fin 90) (report ?cb (Fin 70) ?w2))"
  have f: "fetch (GenerateCall rq) ?w1 = (Responded (json_response 200 pending_task), ?w2)"
    using p by (simp add: fetch_def report_def pending_answer_def)
  have "pending ?w4 = replicate 30 pending_answer @ rest" by (simp add: report_def)
  from poll_loop_all_pending[OF this, of 0 P ?cb config "JStr ''t1''"]
  obtain w' where w': "poll_loop P ?cb config (JStr ''t1'') 0 ?w4 = (Inr None, w')"
      "pending w' = rest" "generate_calls (sent w') = generate_calls (sent ?w4)"
      "result_calls (sent w') = result_calls (sent ?w4) @ replicate 30 (JStr ''t1'')"
    by auto
  have r: "resolve_status P ?cb config True pending_task
             (report ?cb (Fin 90) (report ?cb (Fin 70) ?w2))
           = (Inl (TaskTimeout (JStr ''t1'') (JStr ''pending'')), w')"
    using w'(1) by (simp add: resolve_status_def pending_task_def status_in_def get_prop_def)
  have "attempt P config params rq k w
        = (Throw (TaskTimeout (JStr ''t1'') (JStr ''pending'')), w')"
    using f n r
    by (simp add: attempt_def Let_def json_response_def ok_def response_data_def
                  process_data_def pending_task_def startsWith_def)
  moreover have "generate_calls (sent w') = generate_calls (sent w) @ [rq]"
    using w'(3) by (simp add: report_def)
  moreover have "result_calls (sent w') = result_calls (sent w) @ replicate 30 (JStr ''t1'')"
    using w'(4) by (simp add: report_def)
  ultimately show ?thesis using w'(2) by blast
qed

lemma run_attempts_times_out:
  assumes p: "pending w = replicate 93 pending_answer"
    and n: "isNanoBananaAPI (rq_endpoint rq)"
  shows "\<exists>w'. run_attempts P config params rq 0 w
                = (Inl (TaskTimeout (JStr ''t1'') (JStr ''pending'')), w')
            \<and> generate_calls (sent w') = generate_calls (sent w) @ [rq, rq, rq]
            \<and> length (result_calls (sent w')) = length (result_calls (sent w)) + 90"
proof -
  have s: "replicate 93 pending_answer
           = pending_answer # replicate 30 pending_answer @ replicate 62 pending_answer"
          "replicate 62 pending_answer
           = pending_answer # replicate 30 pending_answer @ replicate 31 pending_answer"
          "replicate 31 pending_answer
           = pending_answer # replicate 30 pending_answer @ []"
    by (simp_all add: replicate_add[symmetric] del: replicate_Suc flip: replicate_Suc)
  from attempt_times_out[OF _ n, of w "replicate 62 pending_answer" P config params 0] p s(1)
  obtain w1 where w1: "attempt P config params rq 0 w
                = (Throw (TaskTimeout (JStr ''t1'') (JStr ''pending'')), w1)"
      "pending w1 = replicate 62 pending_answer"
      "generate_calls (sent w1) = generate_calls (sent w) @ [rq]"
      "result_calls (sent w1) = result_calls (sent w) @ replicate 30 (JStr ''t1'')"
    by auto
  let ?v1 = "sleep 1000 w1"
  have "pending ?v1 = pending_answer # replicate 30 pending_answer @ replicate 31 pending_answer"
    using w1(2) s(2) by (simp add: sleep_def)
  from attempt_times_out[OF this n, of P config params 1]
  obtain w2 where w2: "attempt P config params rq 1 ?v1
                = (Throw (TaskTimeout (JStr ''t1'') (JStr ''pending'')), w2)"
      "pending w2 = replicate 31 pending_answer"
      "generate_calls (sent w2) = generate_calls (sent ?v1) @ [rq]"
      "result_calls (sent w2) = result_calls (sent ?v1) @ replicate 30 (JStr ''t1'')"
    by auto
  let ?v2 = "sleep 2000 w2"
  have "pending ?v2 = pending_answer # replicate 30 pending_answer @ []"
    using w2(2) s(3) by (simp add: sleep_def)
  from attempt_times_out[OF this n, of P config params 2]
  obtain w3 where w3: "attempt P config params rq 2 ?v2
                = (Throw (TaskTimeout (JStr ''t1'') (JStr ''pending'')), w3)"
      "generate_calls (sent w3) = generate_calls (sent ?v2) @ [rq]"
      "result_calls (sent w3) = result_calls (sent ?v2) @ replicate 30 (JStr ''t1'')"
    by auto
  have r2: "run_attempts P config params rq 2 ?v2
            = (Inl (TaskTimeout (JStr ''t1'') (JStr ''pending'')), w3)"
    using w3(1) by (subst run_attempts.simps) simp
  have r1: "run_attempts P config params rq 1 ?v1
            = (Inl (TaskTimeout (JStr ''t1'') (JStr ''pending'')), w3)"
    using w2(1) r2 by (subst run_attempts.simps) (simp add: numeral_2_eq_2)
  have r0: "run_attempts P config params rq 0 w
            = (Inl (TaskTimeout (JStr ''t1'') (JStr ''pending'')), w3)"
    using w1(1) r1 by (subst run_attempts.simps) simp
  have "generate_calls (sent w3) = generate_calls (sent w) @ [rq, rq, rq]"
    using w1(3) w2(3) w3(2) by (simp add: sleep_def)
  moreover have "length (result_calls (sent w3)) = length (result_calls (sent w)) + 90"
    using w1(4) w2(4) w3(3) by (simp add: sleep_def)
  ultimately show ?thesis using r0 by blast
qed

lemma convert_sample_storyboard:
  "convertToBase64 (data_url 100) w = (Inr (data_url 100), w)"
proof -
  have a: "data_url 100 \<noteq> []" "length (trim (data_url 100)) \<noteq> 0"
    "startsWith (data_url 100) ''data:''" "\<not> length (data_url 100) < 100"
    "match_data_url ''data:image/'' (data_url 100) = Some (''png'', replicate 100 (CHR ''A''))"
    by code_simp+
  show ?thesis using a by (simp add: convertToBase64_def)
qed

lemma generate_on_nano_sample:
  "\<exists>rq. isNanoBananaAPI (rq_endpoint rq)
     \<and> (\<forall>w. generateAIImage sample_platform (Some (config_for nano_endpoint))
               (sample_params ''16:9'') w
             = run_attempts sample_platform (config_for nano_endpoint) (sample_params ''16:9'')
                 rq 0 (report True (Fin 10) w))"
proof -
  let ?b = "build_request (config_for nano_endpoint) (sample_params ''16:9'') nano_endpoint
              (data_url 100) None None"
  have "\<not> isl ?b" by code_simp
  then obtain rq where rq: "?b = Inr rq" by (cases ?b) auto
  have "isNanoBananaAPI (rq_endpoint (projr ?b))" by code_simp
  with rq have n: "isNanoBananaAPI (rq_endpoint rq)" by simp
  have t: "trim (apiEndpoint (config_for nano_endpoint)) = nano_endpoint" by code_simp
  have u: "URL_parses sample_platform nano_endpoint" by code_simp
  have e: "apiEndpoint (config_for nano_endpoint) \<noteq> []" "apiKey (config_for nano_endpoint) \<noteq> []"
    "modelName (config_for nano_endpoint) \<noteq> []" "\<not> length (data_url 100) < 100"
    "data_url 100 \<noteq> []"
    by code_simp+
  have p: "storyboardImage (sample_params ''16:9'') = data_url 100"
    "roleImage (sample_params ''16:9'') = None" "sceneImage (sample_params ''16:9'') = None"
    "onProgress (sample_params ''16:9'')"
    by (simp_all add: sample_params_def)
  have "generateAIImage sample_platform (Some (config_for nano_endpoint))
               (sample_params ''16:9'') w
             = run_attempts sample_platform (config_for nano_endpoint) (sample_params ''16:9'')
                 rq 0 (report True (Fin 10) w)" for w
    using t u e p rq
    by (simp add: generateAIImage_def Let_def convert_sample_storyboard convert_optional_def)
  with n show ?thesis by blast
qed

text \<open>
  Claim C2. When 30 polls complete without a terminal status, the call fails with the
  timeout that carries the task id, and the polling loop runs at most once in a call. Here
  the generation endpoint answers each request with a pending task and the result endpoint
  answers each poll with the same pending state. The first polling loop runs out after 30
  polls; the call then sends the request again and polls again, twice: three requests and
  90 polls in all, before the timeout reaches the caller.
\<close>

theorem poll_timeout_is_retried:
  "\<exists>w'. generateAIImage sample_platform (Some (config_for nano_endpoint))
           (sample_params ''16:9'') (world_with (replicate 93 pending_answer))
         = (Inl (TaskTimeout (JStr ''t1'') (JStr ''pending'')), w')
       \<and> length (generate_calls (sent w')) = 3
       \<and> length (result_calls (sent w')) = 90"
proof -
  obtain rq where rq: "isNanoBananaAPI (rq_endpoint rq)"
    "\<And>w. generateAIImage sample_platform (Some (config_for nano_endpoint))
               (sample_params ''16:9'') w
             = run_attempts sample_platform (config_for nano_endpoint) (sample_params ''16:9'')
                 rq 0 (report True (Fin 10) w)"
    using generate_on_nano_sample by blast
  let ?w = "report True (Fin 10) (world_with (replicate 93 pending_answer))"
  have "pending ?w = replicate 93 pending_answer" by (simp add: report_def world_with_def)
  from run_attempts_times_out[OF this rq(1),
         of sample_platform "config_for nano_endpoint" "sample_params ''16:9''"]
  obtain w' where w': "run_attempts sample_platform (config_for nano_endpoint)
          (sample_params ''16:9'') rq 0 ?w
        = (Inl (TaskTimeout (JStr ''t1'') (JStr ''pending'')), w')"
      "generate_calls (sent w') = generate_calls (sent ?w) @ [rq, rq, rq]"
      "length (result_calls (sent w')) = length (result_calls (sent ?w)) + 90"
    by blast
  have "length (generate_calls (sent w')) = 3"
    using w'(2) by (simp add: report_def world_with_def)
  moreover have "length (result_calls (sent w')) = 90"
    using w'(3) by (simp add: report_def world_with_def)
  ultimately show ?thesis using rq(2) w'(1) by auto
qed

text \<open>
  Claim C1. A response with status 401 ends the call at once, after exactly one request to
  the generation endpoint. Here the endpoint answers every request with status 401: the
  exception raised for the first answer is caught by the retry loop, and the call sends
  three requests, with the two waits between them, before the error reaches the caller.
\<close>

theorem auth_error_is_retried:
  "(let (r, w) = generateAIImage sample_platform (Some (config_for gemini_endpoint))
                   (sample_params ''16:9'')
                   (world_with (replicate 3 (Responded (json_response 401 JNull))))
    in (r, length (generate_calls (sent w)), slept w))
   = (Inl (AuthFailed (StatusLine 401)), 3, [1000, 2000])"
  by code_simp

text \<open>
  Claim C6, as stated, fails on a call whose first request is answered with status 500 and
  whose second request is answered with an image: the call succeeds, and the percentage
  goes from 70 back to 40.
\<close>

theorem progress_decreases_on_retry_counterexample:
  "(let (r, w) = generateAIImage sample_platform (Some (config_for gemini_endpoint))
                   (sample_params ''16:9'')
                   (world_with (Responded (json_response 500 JNull) # pending answered_with_image))
    in (r, reported w, nondecreasing (reported w)))
   = (Inr \<lparr> res_image = data_url 4, res_model = ''model'' \<rparr>,
      [Fin 10, Fin 30, Fin 70, Fin 40, Fin 70, Fin 90, Fin 100], False)"
  by code_simp

subsection \<open>Event streams\<close>

lemma split_on_not_Nil [simp]: "split_on d s \<noteq> []"
  by (induction s) (auto split: list.splits)












subsection \<open>Progress reports\<close>

lemma fetch_unstreamed:
  assumes "fetch rq w = (a, w')" and "list_all unstreamed (pending w)"
  shows "unstreamed a \<and> list_all unstreamed (pending w')"
  using assms by (auto simp: fetch_def unstreamed_def split: list.splits)

lemma load_image_unstreamed:
  assumes "load_image img w = (r, w')" and "list_all unstreamed (pending w)"
  shows "list_all unstreamed (pending w')"
proof -
  obtain a w1 where f: "fetch (ImageFetch img) w = (a, w1)"
    by (cases "fetch (ImageFetch img) w")
  with assms(1) have "w' = w1"
    by (auto simp: load_image_def split: fetch_result.splits if_splits sum.splits)
  with fetch_unstreamed[OF f assms(2)] show ?thesis by simp
qed

lemma convertToBase64_unstreamed:
  assumes "convertToBase64 img w = (r, w')" and "list_all unstreamed (pending w)"
  shows "list_all unstreamed (pending w')"
proof -
  obtain r0 w0 where l: "load_image img w = (r0, w0)" by (cases "load_image img w")
  from assms(1) l have "w' = w \<or> w' = w0"
    by (auto simp: convertToBase64_def split: if_splits option.splits prod.splits sum.splits)
  with load_image_unstreamed[OF l assms(2)] assms(2) show ?thesis by auto
qed

lemma convert_optional_unstreamed:
  assumes "convert_optional img w = (r, w')" and "list_all unstreamed (pending w)"
  shows "list_all unstreamed (pending w')"
proof (cases img)
  case None
  with assms show ?thesis by (simp add: convert_optional_def)
next
  case (Some i)
  obtain r0 w0 where c: "convertToBase64 i w = (r0, w0)" by (cases "convertToBase64 i w")
  from assms(1) Some c have "w' = w \<or> w' = w0"
    by (auto simp: convert_optional_def split: if_splits sum.splits)
  with convertToBase64_unstreamed[OF c assms(2)] assms(2) show ?thesis by auto
qed

lemma poll_once_calls:
  assumes "poll_once P config tid w = (s, w')"
  shows "generate_calls (sent w') = generate_calls (sent w)
         \<and> result_calls (sent w') = result_calls (sent w) @ [tid]"
proof -
  obtain a w1 where f: "fetch (ResultCall (apiEndpoint config) tid) w = (a, w1)"
    by (cases "fetch (ResultCall (apiEndpoint config) tid) w")
  then have s: "sent w1 = sent w @ [ResultCall (apiEndpoint config) tid]"
    by (auto simp: fetch_def split: list.splits)
  from assms f have "w' = w1"
    by (auto simp: poll_once_def
             split: fetch_result.splits if_splits sum.splits option.splits json.splits)
  with s show ?thesis by simp
qed

lemma poll_loop_calls:
  "poll_loop P cb config tid k w = (r, w') \<Longrightarrow>
   generate_calls (sent w') = generate_calls (sent w)
   \<and> (\<exists>xs. result_calls (sent w') = result_calls (sent w) @ xs \<and> (k < 30 \<longrightarrow> xs \<noteq> []))"
proof (induction P cb config tid k w arbitrary: r w' rule: poll_loop.induct)
  case (1 P cb config taskId attempt w)
  show ?case
  proof (cases "attempt < 30")
    case False
    with "1.prems" show ?thesis by (simp add: poll_loop.simps)
  next
    case True
    let ?w2 = "report cb (Fin (50 + min 30 (of_nat attempt / of_nat 30 * 30))) (sleep 2000 w)"
    obtain s w3 where o: "poll_once P config taskId ?w2 = (s, w3)"
      by (cases "poll_once P config taskId ?w2")
    have c: "generate_calls (sent w3) = generate_calls (sent w)"
      "result_calls (sent w3) = result_calls (sent w) @ [taskId]"
      using poll_once_calls[OF o] by (simp_all add: report_def sleep_def)
    show ?thesis
    proof (cases s)
      case StillPending
      with "1.prems" True o have p: "poll_loop P cb config taskId (attempt + 1) w3 = (r, w')"
        by (subst (asm) poll_loop.simps) (simp add: Let_def)
      from "1.IH"[OF True refl refl o[symmetric] StillPending p] c
      show ?thesis by auto
    next
      case (Completed img)
      with "1.prems" True o have "w' = w3"
        by (subst (asm) poll_loop.simps) (simp add: Let_def)
      with c show ?thesis by simp
    next
      case (PollThrow e)
      with "1.prems" True o have "w' = w3"
        by (subst (asm) poll_loop.simps) (simp add: Let_def)
      with c show ?thesis by simp
    qed
  qed
qed

lemma report_fields [simp]:
  "sent (report cb p w) = sent w" "pending (report cb p w) = pending w"
  "slept (report cb p w) = slept w"
  "reported (report cb p w) = (if cb then reported w @ [p] else reported w)"
  by (simp_all add: report_def)

lemma sleep_fields [simp]:
  "sent (sleep ms w) = sent w" "pending (sleep ms w) = pending w"
  "reported (sleep ms w) = reported w" "slept (sleep ms w) = slept w @ [ms]"
  by (simp_all add: sleep_def)

lemma resolve_status_calls:
  assumes "resolve_status P cb config isNano d w = (r, w')"
  shows "generate_calls (sent w') = generate_calls (sent w)
         \<and> (result_calls (sent w') = result_calls (sent w) \<longrightarrow> w' = w)"
proof -
  consider (same) "w' = w"
    | (polled) tid r0 where "poll_loop P cb config tid 0 (report cb (Fin 50) w) = (r0, w')"
    using assms
    by (auto simp: resolve_status_def split: option.splits if_splits prod.splits sum.splits)
  then show ?thesis
  proof cases
    case same
    then show ?thesis by simp
  next
    case polled
    from poll_loop_calls[OF polled] show ?thesis by auto
  qed
qed

lemma downloadImageAsBase64_effect:
  assumes "downloadImageAsBase64 u w = (r, w')"
  shows "generate_calls (sent w') = generate_calls (sent w)
         \<and> result_calls (sent w') = result_calls (sent w) \<and> reported w' = reported w"
  using assms
  by (auto simp: downloadImageAsBase64_def fetch_def
           split: list.splits fetch_result.splits if_splits sum.splits)

lemma process_data_calls:
  assumes "process_data P cb config isNano d w = (out, w')"
  shows "generate_calls (sent w') = generate_calls (sent w)"
proof (cases "d = JNull")
  case True
  with assms show ?thesis by (simp add: process_data_def)
next
  case False
  obtain r1 w1 where rs: "resolve_status P cb config isNano d w = (r1, w1)"
    by (cases "resolve_status P cb config isNano d w")
  have c1: "generate_calls (sent w1) = generate_calls (sent w)"
    using resolve_status_calls[OF rs] by simp
  show ?thesis
  proof (cases "w' = w1 \<or> w' = report cb (Fin 100) w1")
    case True
    with c1 show ?thesis by (auto simp: report_def)
  next
    case n: False
    with assms False rs obtain g r2 w2 where
      dl: "downloadImageAsBase64 g (report cb (Fin 95) w1) = (r2, w2)"
      and w': "w' = w2 \<or> w' = report cb (Fin 100) w2"
      by (auto simp: process_data_def split: sum.splits if_splits prod.splits)
    from downloadImageAsBase64_effect[OF dl] w' c1 show ?thesis
      by (auto simp: report_def)
  qed
qed

lemma process_data_return:
  assumes "process_data P True config isNano d w = (Return res, w')"
    and "result_calls (sent w') = result_calls (sent w)"
  shows "reported w' = reported w @ [Fin 100] \<or> reported w' = reported w @ [Fin 95, Fin 100]"
proof -
  from assms(1) have nn: "d \<noteq> JNull" by (auto simp: process_data_def split: if_splits)
  obtain r1 w1 where rs: "resolve_status P True config isNano d w = (r1, w1)"
    by (cases "resolve_status P True config isNano d w")
  have grow: "\<exists>xs. result_calls (sent w1) = result_calls (sent w) @ xs"
  proof -
    consider (same) "w1 = w"
      | (polled) tid r0 where
          "poll_loop P True config tid 0 (report True (Fin 50) w) = (r0, w1)"
      using rs
      by (auto simp: resolve_status_def split: option.splits if_splits prod.splits sum.splits)
    then show ?thesis
    proof cases
      case same
      then show ?thesis by simp
    next
      case polled
      from poll_loop_calls[OF polled] show ?thesis by auto
    qed
  qed
  consider (direct) "w' = report True (Fin 100) w1"
    | (download) g r2 w2 where
        "downloadImageAsBase64 g (report True (Fin 95) w1) = (r2, w2)"
        "w' = report True (Fin 100) w2"
    using assms(1) nn rs
    by (auto simp: process_data_def split: sum.splits if_splits prod.splits)
  then show ?thesis
  proof cases
    case direct
    with assms(2) have "result_calls (sent w1) = result_calls (sent w)"
      by (simp add: report_def)
    with resolve_status_calls[OF rs] have "w1 = w" by simp
    with direct show ?thesis by (simp add: report_def)
  next
    case download
    from downloadImageAsBase64_effect[OF download(1)] download(2) assms(2)
    have "result_calls (sent w1) = result_calls (sent w)"
      and rep: "reported w' = reported w1 @ [Fin 95, Fin 100]"
      by (simp_all add: report_def)
    with resolve_status_calls[OF rs] have "w1 = w" by simp
    with rep show ?thesis by simp
  qed
qed

lemma sse_lines_sent: "sent (snd (sse_lines P cb buffer ls lastData w)) = sent w"
proof (induction ls arbitrary: lastData w)
  case Nil
  show ?case by simp
next
  case (Cons line ls)
  show ?case
    by (auto simp: Let_def Cons report_def split: option.splits)
qed

lemma sse_read_sent: "sent (snd (sse_read P cb chunks buffer lastData w)) = sent w"
proof (induction chunks arbitrary: buffer lastData w)
  case Nil
  show ?case by simp
next
  case (Cons chunk chunks)
  obtain ls b where p: "pop_line (split_on (CHR 0x0A) (buffer @ chunk)) = (ls, b)"
    by (cases "pop_line (split_on (CHR 0x0A) (buffer @ chunk))")
  obtain l1 w1 where s: "sse_lines P cb b ls lastData w = (l1, w1)"
    by (cases "sse_lines P cb b ls lastData w")
  have "sent w1 = sent w" using sse_lines_sent[of P cb b ls lastData w] s by simp
  with p s Cons[of b l1 w1] show ?case by simp
qed

lemma sse_read_sent_result:
  "sse_read P cb chunks buffer lastData w = (l, w') \<Longrightarrow> sent w' = sent w"
  using sse_read_sent[of P cb chunks buffer lastData w] by simp

lemma response_data_sent:
  assumes "response_data P cb r w = (x, w')"
  shows "sent w' = sent w"
  using assms
  by (auto simp: response_data_def read_event_stream_def
           split: if_splits sum.splits option.splits prod.splits
           dest: sse_read_sent_result)

lemma response_data_unstreamed:
  assumes "response_data P cb r w = (x, w')"
    and "\<not> includes_str (content_type r) ''text/event-stream''"
  shows "w' = w"
  using assms by (auto simp: response_data_def split: if_splits sum.splits)

lemma attempt_calls:
  assumes "attempt P config params rq k w = (out, w')"
  shows "generate_calls (sent w') = generate_calls (sent w) @ [rq]"
proof -
  let ?cb = "onProgress params"
  let ?w1 = "report ?cb (Fin (30 + of_nat k * 10)) w"
  obtain a w2 where f: "fetch (GenerateCall rq) ?w1 = (a, w2)"
    by (cases "fetch (GenerateCall rq) ?w1")
  then have s2: "generate_calls (sent w2) = generate_calls (sent w) @ [rq]"
    by (auto simp: fetch_def split: list.splits)
  show ?thesis
  proof (cases a)
    case (Rejected msg)
    with assms f have "w' = w2" by (simp add: attempt_def Let_def)
    with s2 show ?thesis by simp
  next
    case (Responded r)
    let ?w3 = "report ?cb (Fin 70) w2"
    show ?thesis
    proof (cases "ok r")
      case False
      with assms f Responded have "w' = ?w3 \<or> w' = sleep (1000 * (k + 1)) ?w3"
        by (auto simp: attempt_def Let_def split: if_splits)
      with s2 show ?thesis by auto
    next
      case True
      obtain x w4 where rd: "response_data P ?cb r ?w3 = (x, w4)"
        by (cases "response_data P ?cb r ?w3")
      have s4: "generate_calls (sent w4) = generate_calls (sent w) @ [rq]"
        using response_data_sent[OF rd] s2 by simp
      show ?thesis
      proof (cases x)
        case (Inl e)
        with assms f Responded True rd have "w' = w4" by (simp add: attempt_def Let_def)
        with s4 show ?thesis by simp
      next
        case (Inr d)
        with assms f Responded True rd
        have "process_data P ?cb config (isNanoBananaAPI (rq_endpoint rq)) d
                (report ?cb (Fin 90) w4) = (out, w')"
          by (simp add: attempt_def Let_def)
        from process_data_calls[OF this] s4 show ?thesis by simp
      qed
    qed
  qed
qed

lemma attempt_return:
  assumes a: "attempt P config params rq k w = (Return res, w')"
    and cb: "onProgress params"
    and u: "list_all unstreamed (pending w)"
    and n: "result_calls (sent w') = result_calls (sent w)"
  shows "reported w' = reported w @ [Fin (30 + of_nat k * 10), Fin 70, Fin 90, Fin 100]
         \<or> reported w' = reported w @ [Fin (30 + of_nat k * 10), Fin 70, Fin 90, Fin 95, Fin 100]"
proof -
  let ?w1 = "report True (Fin (30 + of_nat k * 10)) w"
  obtain x w2 where f: "fetch (GenerateCall rq) ?w1 = (x, w2)"
    by (cases "fetch (GenerateCall rq) ?w1")
  have u1: "list_all unstreamed (pending ?w1)" using u by simp
  from fetch_unstreamed[OF f u1] have ux: "unstreamed x" by simp
  have e2: "reported w2 = reported w @ [Fin (30 + of_nat k * 10)]"
           "result_calls (sent w2) = result_calls (sent w)"
    using f by (auto simp: fetch_def split: list.splits)
  from a cb f obtain r where x: "x = Responded r" and okr: "ok r"
    by (cases x) (auto simp: attempt_def Let_def split: if_splits)
  from ux x have ns: "\<not> includes_str (content_type r) ''text/event-stream''"
    by (simp add: unstreamed_def)
  let ?w3 = "report True (Fin 70) w2"
  obtain y w4 where rd: "response_data P True r ?w3 = (y, w4)"
    by (cases "response_data P True r ?w3")
  have w4: "w4 = ?w3" using response_data_unstreamed[OF rd ns] .
  from a cb f x okr rd obtain d where
    pd: "process_data P True config (isNanoBananaAPI (rq_endpoint rq)) d
           (report True (Fin 90) w4) = (Return res, w')"
    by (cases y) (auto simp: attempt_def Let_def)
  have "result_calls (sent w') = result_calls (sent (report True (Fin 90) w4))"
    using n e2(2) w4 by simp
  from process_data_return[OF pd this] w4 e2(1) show ?thesis by auto
qed

lemma run_attempts_calls:
  "run_attempts P config params rq k w = (r, w') \<Longrightarrow> k < 3 \<Longrightarrow>
   length (generate_calls (sent w)) < length (generate_calls (sent w'))"
proof (induction P config params rq k w arbitrary: r w' rule: run_attempts.induct)
  case (1 P config params rq retryCount w)
  obtain out w1 where a: "attempt P config params rq retryCount w = (out, w1)"
    by (cases "attempt P config params rq retryCount w")
  have c: "generate_calls (sent w1) = generate_calls (sent w) @ [rq]"
    using attempt_calls[OF a] .
  show ?case
  proof (cases out)
    case (Return res)
    with "1.prems" a have "w' = w1" by (subst (asm) run_attempts.simps) simp
    with c show ?thesis by simp
  next
    case Continue
    with "1.prems" a
    have next_run: "run_attempts P config params rq (retryCount + 1) w1 = (r, w')"
      by (subst (asm) run_attempts.simps) simp
    show ?thesis
    proof (cases "retryCount + 1 < 3")
      case True
      from "1.IH"(2)[OF "1.prems"(2) a[symmetric] Continue next_run True] c
      show ?thesis by simp
    next
      case False
      with next_run have "w' = w1" by (subst (asm) run_attempts.simps) simp
      with c show ?thesis by simp
    qed
  next
    case (Throw e)
    show ?thesis
    proof (cases "3 \<le> retryCount + 1")
      case True
      with "1.prems" a Throw have "w' = w1" by (subst (asm) run_attempts.simps) simp
      with c show ?thesis by simp
    next
      case False
      with "1.prems" a Throw
      have next_run: "run_attempts P config params rq (retryCount + 1)
                        (sleep (1000 * (retryCount + 1)) w1) = (r, w')"
        by (subst (asm) run_attempts.simps) simp
      from False have lt: "retryCount + 1 < 3" by simp
      from "1.IH"(1)[OF "1.prems"(2) a[symmetric] Throw False next_run lt] c
      show ?thesis by simp
    qed
  qed
qed

lemma run_attempts_single:
  assumes r: "run_attempts P config params rq 0 w = (r, w')"
    and one: "length (generate_calls (sent w')) = length (generate_calls (sent w)) + 1"
  shows "\<exists>res. attempt P config params rq 0 w = (Return res, w') \<and> r = Inr res"
proof -
  obtain out w1 where a: "attempt P config params rq 0 w = (out, w1)"
    by (cases "attempt P config params rq 0 w")
  have c: "generate_calls (sent w1) = generate_calls (sent w) @ [rq]"
    using attempt_calls[OF a] .
  show ?thesis
  proof (cases out)
    case (Return res)
    with r a show ?thesis by (subst (asm) run_attempts.simps) simp
  next
    case Continue
    with r a have "run_attempts P config params rq 1 w1 = (r, w')"
      by (subst (asm) run_attempts.simps) simp
    from run_attempts_calls[OF this] c one show ?thesis by simp
  next
    case (Throw e)
    with r a have "run_attempts P config params rq 1 (sleep 1000 w1) = (r, w')"
      by (subst (asm) run_attempts.simps) simp
    from run_attempts_calls[OF this] c one show ?thesis by simp
  qed
qed

lemma single_attempt_progress:
  assumes g: "generateAIImage P stored params w = (res, w')"
    and cb: "onProgress params"
    and u: "list_all unstreamed (pending w)"
    and one: "length (generate_calls (sent w')) = length (generate_calls (sent w)) + 1"
    and np: "result_calls (sent w') = result_calls (sent w)"
  shows "(reported w' = reported w @ [Fin 10, Fin 30, Fin 70, Fin 90, Fin 100]
          \<or> reported w' = reported w @ [Fin 10, Fin 30, Fin 70, Fin 90, Fin 95, Fin 100])
         \<and> \<not> isl res"
proof -
  obtain r1 w1 where c1: "convertToBase64 (storyboardImage params) w = (r1, w1)"
    by (cases "convertToBase64 (storyboardImage params) w")
  obtain r2 w2 where c2: "convert_optional (roleImage params) w1 = (r2, w2)"
    by (cases "convert_optional (roleImage params) w1")
  obtain r3 w3 where c3: "convert_optional (sceneImage params) w2 = (r3, w3)"
    by (cases "convert_optional (sceneImage params) w2")
  note e1 = convertToBase64_effect[OF c1]
  note e2 = convert_optional_effect[OF c2]
  note e3 = convert_optional_effect[OF c3]
  have u3: "list_all unstreamed (pending w3)"
    using convert_optional_unstreamed[OF c3
            convert_optional_unstreamed[OF c2 convertToBase64_unstreamed[OF c1 u]]] .
  have same: "generate_calls (sent w1) = generate_calls (sent w)"
    "generate_calls (sent w2) = generate_calls (sent w)"
    "generate_calls (sent w3) = generate_calls (sent w)"
    using e1 e2 e3 by simp_all
  let ?w4 = "report True (Fin 10) w3"
  from g one c1 c2 c3 same cb obtain config rq where
    run: "run_attempts P config params rq 0 ?w4 = (res, w')"
    by (auto simp: generateAIImage_def Let_def split: option.splits if_splits sum.splits)
  have one4: "length (generate_calls (sent w')) = length (generate_calls (sent ?w4)) + 1"
    using one same(3) by simp
  from run_attempts_single[OF run one4] obtain r where
    a: "attempt P config params rq 0 ?w4 = (Return r, w')" and res: "res = Inr r"
    by blast
  have u4: "list_all unstreamed (pending ?w4)" using u3 by simp
  have np4: "result_calls (sent w') = result_calls (sent ?w4)"
    using np e1 e2 e3 by simp
  have rep4: "reported ?w4 = reported w @ [Fin 10]"
    using e1 e2 e3 by simp
  from attempt_return[OF a cb u4 np4] rep4 res show ?thesis by auto
qed

text \<open>
  Claim C6, as amended. For a call with a progress callback that sends exactly one request
  to the generation endpoint, is not answered by an event stream and does not poll, the
  call succeeds and the percentages reported are 10, 30, 70, 90 and 100, with 95 before 100
  when the image is downloaded from a link: the sequence does not decrease.
\<close>

theorem progress_of_single_attempt:
  assumes "generateAIImage P stored params w = (res, w')"
    and "onProgress params"
    and "list_all unstreamed (pending w)"
    and "length (generate_calls (sent w')) = length (generate_calls (sent w)) + 1"
    and "result_calls (sent w') = result_calls (sent w)"
    and "reported w = []"
  shows "(reported w' = [Fin 10, Fin 30, Fin 70, Fin 90, Fin 100]
          \<or> reported w' = [Fin 10, Fin 30, Fin 70, Fin 90, Fin 95, Fin 100])
         \<and> nondecreasing (reported w') \<and> \<not> isl res"
proof -
  from single_attempt_progress[OF assms(1-5)] assms(6)
  have r: "reported w' = [Fin 10, Fin 30, Fin 70, Fin 90, Fin 100]
           \<or> reported w' = [Fin 10, Fin 30, Fin 70, Fin 90, Fin 95, Fin 100]"
    and s: "\<not> isl res" by auto
  from r have "nondecreasing (reported w')" by auto
  with r s show ?thesis by simp
qed

text \<open>The amended claim on a call that is answered at once with an image.\<close>

theorem progress_of_single_attempt_witness:
  "onProgress (sample_params ''16:9'')
   \<and> list_all unstreamed (pending answered_with_image)
   \<and> reported answered_with_image = []
   \<and> (\<exists>res w'. generateAIImage sample_platform (Some (config_for gemini_endpoint))
                  (sample_params ''16:9'') answered_with_image = (res, w')
         \<and> length (generate_calls (sent w'))
             = length (generate_calls (sent answered_with_image)) + 1
         \<and> result_calls (sent w') = result_calls (sent answered_with_image)
         \<and> reported w' = [Fin 10, Fin 30, Fin 70, Fin 90, Fin 100]
         \<and> nondecreasing (reported w'))"
proof -
  let ?g = "generateAIImage sample_platform (Some (config_for gemini_endpoint))
              (sample_params ''16:9'') answered_with_image"
  have g: "?g = (fst ?g, snd ?g)" by simp
  have a: "onProgress (sample_params ''16:9'')" by (simp add: sample_params_def)
  have b: "list_all unstreamed (pending answered_with_image)" by code_simp
  have c: "length (generate_calls (sent (snd ?g)))
           = length (generate_calls (sent answered_with_image)) + 1"
    by code_simp
  have d: "result_calls (sent (snd ?g)) = result_calls (sent answered_with_image)"
    by code_simp
  have e: "reported answered_with_image = []" by code_simp
  have f: "reported (snd ?g) \<noteq> [Fin 10, Fin 30, Fin 70, Fin 90, Fin 95, Fin 100]"
    by code_simp
  from progress_of_single_attempt[OF g a b c d e] f
  have "reported (snd ?g) = [Fin 10, Fin 30, Fin 70, Fin 90, Fin 100]
        \<and> nondecreasing (reported (snd ?g))"
    by blast
  with a b c d e g show ?thesis by blast
qed

end
